theory Spec2Isabelle
  imports Complex_Main "HOL-Library.Log_Nat"
begin

section \<open>Python strings\<close>

text \<open>
  A Python \<open>str\<close> is a sequence of Unicode code points; it is modelled as the list of
  its code points.  \<open>lit\<close> embeds an ASCII literal.
\<close>

type_synonym pystr = "nat list"

definition lit :: "string \<Rightarrow> pystr" where
  "lit s = map of_char s"

text \<open>\<open>str.isspace\<close> on one code point: the white-space table of CPython (Unicode 14).\<close>

definition py_isspace :: "nat \<Rightarrow> bool" where
  "py_isspace c \<longleftrightarrow>
     (9 \<le> c \<and> c \<le> 13) \<or> (28 \<le> c \<and> c \<le> 32) \<or> c = 133 \<or> c = 160 \<or> c = 5760 \<or>
     (8192 \<le> c \<and> c \<le> 8202) \<or> c = 8232 \<or> c = 8233 \<or> c = 8239 \<or> c = 8287 \<or> c = 12288"

text \<open>\<open>s.strip()\<close>: leading and trailing white space removed.\<close>

definition strip :: "pystr \<Rightarrow> pystr" where
  "strip s = rev (dropWhile py_isspace (rev (dropWhile py_isspace s)))"

section \<open>Schema (database.py)\<close>

record pydate =
  year :: nat
  month :: nat
  day :: nat

record pydatetime =
  dt_date :: pydate
  hour :: nat
  minute :: nat
  second :: nat
  microsecond :: nat

record CustomerInfo =
  ci_customer_name :: pystr
  ci_final_premium_amount :: "pystr option"
  ci_addons_with_amount :: "pystr option"

record CustomerPolicies =
  cp_customer_name :: pystr
  cp_vehicle_insurance :: "pystr option"
  cp_medical_insurance :: "pystr option"
  cp_life_insurance :: "pystr option"
  cp_travel_insurance :: "pystr option"
  cp_home_insurance :: "pystr option"
  cp_vehicle_policy_numbers :: "pystr option"
  cp_medical_policy_numbers :: "pystr option"
  cp_life_policy_numbers :: "pystr option"
  cp_travel_policy_numbers :: "pystr option"
  cp_home_policy_numbers :: "pystr option"
  cp_last_policy_renewal :: "pydate option"
  cp_customer_since :: pydate
  cp_age :: "pystr option"
  cp_location :: "pystr option"
  cp_vehicle_addons :: "pystr option"
  cp_medical_addons :: "pystr option"
  cp_home_addons :: "pystr option"
  cp_travel_addons :: "pystr option"
  cp_life_addons :: "pystr option"
  cp_created_at :: "pydatetime option"
  cp_updated_at :: "pydatetime option"

record InsuranceClaims =
  ic_claim_id :: pystr
  ic_policy_number :: pystr
  ic_customer_name :: pystr
  ic_claim_type :: pystr
  ic_amount :: pystr
  ic_date_submitted :: "pydatetime option"
  ic_description :: pystr
  ic_status :: pystr
  ic_rejection_reason :: "pystr option"

text \<open>
  The three tables.  A table is the list of its rows; the primary key of
  \<open>customer_policies\<close> and of \<open>customer_info\<close> is the customer name.
\<close>

record tables =
  customer_policies :: "CustomerPolicies list"
  insurance_claims :: "InsuranceClaims list"
  customer_info :: "CustomerInfo list"

text \<open>
  A SQLAlchemy session: the committed contents of the store and the contents as seen by
  the transaction in flight.  \<open>commit\<close> asks the storage engine to accept the pending
  contents; the engine's verdict (constraints, connectivity) is a parameter.  A refused
  commit raises, which the handlers catch as \<open>Exception\<close>.
\<close>

record session =
  committed :: tables
  pending :: tables

definition db_commit :: "(tables \<Rightarrow> bool) \<Rightarrow> session \<Rightarrow> session option" where
  "db_commit engine_accepts db =
     (if engine_accepts (pending db) then Some (db\<lparr>committed := pending db\<rparr>) else None)"

definition db_rollback :: "session \<Rightarrow> session" where
  "db_rollback db = db\<lparr>pending := committed db\<rparr>"

datatype http_error = BadRequest | NotFound | InternalServerError

fun status_code :: "http_error \<Rightarrow> nat" where
  "status_code BadRequest = 400"
| "status_code NotFound = 404"
| "status_code InternalServerError = 500"

section \<open>Request contracts (main.py)\<close>

record CustomerInfoUpdateRequest =
  ciu_customer_name :: pystr
  ciu_final_premium_amount :: "pystr option"
  ciu_addons_with_amount :: "pystr option"

text \<open>
  A field of \<open>CustomerPolicyUpdateRequest\<close> is \<open>Optional[str] = None\<close>, and pydantic
  records which fields the payload set.  A field is therefore in one of three states:
  absent from the payload, present as null, present with a string.
\<close>

datatype field_input = Unset | Null | Value pystr

text \<open>Reading the attribute: an unset field has its default, \<open>None\<close>.\<close>

fun attr :: "field_input \<Rightarrow> pystr option" where
  "attr Unset = None"
| "attr Null = None"
| "attr (Value v) = Some v"

record CustomerPolicyUpdateRequest =
  cpu_customer_name :: pystr
  cpu_vehicle_insurance :: field_input
  cpu_medical_insurance :: field_input
  cpu_life_insurance :: field_input
  cpu_travel_insurance :: field_input
  cpu_home_insurance :: field_input
  cpu_vehicle_policy_numbers :: field_input
  cpu_medical_policy_numbers :: field_input
  cpu_life_policy_numbers :: field_input
  cpu_travel_policy_numbers :: field_input
  cpu_home_policy_numbers :: field_input
  cpu_age :: field_input
  cpu_location :: field_input
  cpu_vehicle_addons :: field_input
  cpu_medical_addons :: field_input
  cpu_home_addons :: field_input
  cpu_travel_addons :: field_input
  cpu_life_addons :: field_input

record UpdateCustomerInfoRequest =
  ur_customer_info :: "CustomerInfoUpdateRequest option"
  ur_customer_policy :: "CustomerPolicyUpdateRequest option"

text \<open>The names of the fields of \<open>CustomerPolicyUpdateRequest\<close>, in declaration order.\<close>

datatype policy_field =
    F_customer_name
  | F_vehicle_insurance | F_medical_insurance | F_life_insurance | F_travel_insurance
  | F_home_insurance
  | F_vehicle_policy_numbers | F_medical_policy_numbers | F_life_policy_numbers
  | F_travel_policy_numbers | F_home_policy_numbers
  | F_age | F_location
  | F_vehicle_addons | F_medical_addons | F_home_addons | F_travel_addons | F_life_addons

definition updatable_fields :: "policy_field list" where
  "updatable_fields =
     [F_vehicle_insurance, F_medical_insurance, F_life_insurance, F_travel_insurance,
      F_home_insurance,
      F_vehicle_policy_numbers, F_medical_policy_numbers, F_life_policy_numbers,
      F_travel_policy_numbers, F_home_policy_numbers,
      F_age, F_location,
      F_vehicle_addons, F_medical_addons, F_home_addons, F_travel_addons, F_life_addons]"

fun payload_field :: "CustomerPolicyUpdateRequest \<Rightarrow> policy_field \<Rightarrow> field_input" where
  "payload_field p F_customer_name = Value (cpu_customer_name p)"
| "payload_field p F_vehicle_insurance = cpu_vehicle_insurance p"
| "payload_field p F_medical_insurance = cpu_medical_insurance p"
| "payload_field p F_life_insurance = cpu_life_insurance p"
| "payload_field p F_travel_insurance = cpu_travel_insurance p"
| "payload_field p F_home_insurance = cpu_home_insurance p"
| "payload_field p F_vehicle_policy_numbers = cpu_vehicle_policy_numbers p"
| "payload_field p F_medical_policy_numbers = cpu_medical_policy_numbers p"
| "payload_field p F_life_policy_numbers = cpu_life_policy_numbers p"
| "payload_field p F_travel_policy_numbers = cpu_travel_policy_numbers p"
| "payload_field p F_home_policy_numbers = cpu_home_policy_numbers p"
| "payload_field p F_age = cpu_age p"
| "payload_field p F_location = cpu_location p"
| "payload_field p F_vehicle_addons = cpu_vehicle_addons p"
| "payload_field p F_medical_addons = cpu_medical_addons p"
| "payload_field p F_home_addons = cpu_home_addons p"
| "payload_field p F_travel_addons = cpu_travel_addons p"
| "payload_field p F_life_addons = cpu_life_addons p"

text \<open>
  \<open>customer_policy_data.dict(exclude_unset=True).items()\<close>: the fields the payload
  set, in declaration order, each with its value (\<open>None\<close> for null).  The required
  \<open>customer_name\<close> is always set.
\<close>

definition dict_exclude_unset ::
  "CustomerPolicyUpdateRequest \<Rightarrow> (policy_field \<times> pystr option) list" where
  "dict_exclude_unset p =
     map (\<lambda>f. (f, attr (payload_field p f)))
       (filter (\<lambda>f. payload_field p f \<noteq> Unset) (F_customer_name # updatable_fields))"

text \<open>\<open>getattr\<close> and \<open>setattr\<close> on a \<open>CustomerPolicies\<close> row, by field name.\<close>

fun getattr_policy :: "CustomerPolicies \<Rightarrow> policy_field \<Rightarrow> pystr option" where
  "getattr_policy r F_customer_name = Some (cp_customer_name r)"
| "getattr_policy r F_vehicle_insurance = cp_vehicle_insurance r"
| "getattr_policy r F_medical_insurance = cp_medical_insurance r"
| "getattr_policy r F_life_insurance = cp_life_insurance r"
| "getattr_policy r F_travel_insurance = cp_travel_insurance r"
| "getattr_policy r F_home_insurance = cp_home_insurance r"
| "getattr_policy r F_vehicle_policy_numbers = cp_vehicle_policy_numbers r"
| "getattr_policy r F_medical_policy_numbers = cp_medical_policy_numbers r"
| "getattr_policy r F_life_policy_numbers = cp_life_policy_numbers r"
| "getattr_policy r F_travel_policy_numbers = cp_travel_policy_numbers r"
| "getattr_policy r F_home_policy_numbers = cp_home_policy_numbers r"
| "getattr_policy r F_age = cp_age r"
| "getattr_policy r F_location = cp_location r"
| "getattr_policy r F_vehicle_addons = cp_vehicle_addons r"
| "getattr_policy r F_medical_addons = cp_medical_addons r"
| "getattr_policy r F_home_addons = cp_home_addons r"
| "getattr_policy r F_travel_addons = cp_travel_addons r"
| "getattr_policy r F_life_addons = cp_life_addons r"

fun setattr_policy :: "CustomerPolicies \<Rightarrow> policy_field \<Rightarrow> pystr \<Rightarrow> CustomerPolicies" where
  "setattr_policy r F_customer_name v = r\<lparr>cp_customer_name := v\<rparr>"
| "setattr_policy r F_vehicle_insurance v = r\<lparr>cp_vehicle_insurance := Some v\<rparr>"
| "setattr_policy r F_medical_insurance v = r\<lparr>cp_medical_insurance := Some v\<rparr>"
| "setattr_policy r F_life_insurance v = r\<lparr>cp_life_insurance := Some v\<rparr>"
| "setattr_policy r F_travel_insurance v = r\<lparr>cp_travel_insurance := Some v\<rparr>"
| "setattr_policy r F_home_insurance v = r\<lparr>cp_home_insurance := Some v\<rparr>"
| "setattr_policy r F_vehicle_policy_numbers v = r\<lparr>cp_vehicle_policy_numbers := Some v\<rparr>"
| "setattr_policy r F_medical_policy_numbers v = r\<lparr>cp_medical_policy_numbers := Some v\<rparr>"
| "setattr_policy r F_life_policy_numbers v = r\<lparr>cp_life_policy_numbers := Some v\<rparr>"
| "setattr_policy r F_travel_policy_numbers v = r\<lparr>cp_travel_policy_numbers := Some v\<rparr>"
| "setattr_policy r F_home_policy_numbers v = r\<lparr>cp_home_policy_numbers := Some v\<rparr>"
| "setattr_policy r F_age v = r\<lparr>cp_age := Some v\<rparr>"
| "setattr_policy r F_location v = r\<lparr>cp_location := Some v\<rparr>"
| "setattr_policy r F_vehicle_addons v = r\<lparr>cp_vehicle_addons := Some v\<rparr>"
| "setattr_policy r F_medical_addons v = r\<lparr>cp_medical_addons := Some v\<rparr>"
| "setattr_policy r F_home_addons v = r\<lparr>cp_home_addons := Some v\<rparr>"
| "setattr_policy r F_travel_addons v = r\<lparr>cp_travel_addons := Some v\<rparr>"
| "setattr_policy r F_life_addons v = r\<lparr>cp_life_addons := Some v\<rparr>"

section \<open>Rendering dates\<close>

text \<open>\<open>str(n)\<close> for a natural number, and \<open>date.isoformat()\<close>, \<open>datetime.isoformat()\<close>.\<close>

fun str_nat :: "nat \<Rightarrow> pystr" where
  "str_nat n = (if n < 10 then [48 + n] else str_nat (n div 10) @ [48 + n mod 10])"

definition zfill :: "nat \<Rightarrow> pystr \<Rightarrow> pystr" where
  "zfill w s = replicate (w - length s) 48 @ s"

definition isoformat_date :: "pydate \<Rightarrow> pystr" where
  "isoformat_date d =
     zfill 4 (str_nat (year d)) @ lit ''-'' @ zfill 2 (str_nat (month d)) @ lit ''-'' @
     zfill 2 (str_nat (day d))"

definition isoformat_datetime :: "pydatetime \<Rightarrow> pystr" where
  "isoformat_datetime t =
     isoformat_date (dt_date t) @ lit ''T'' @ zfill 2 (str_nat (hour t)) @ lit '':'' @
     zfill 2 (str_nat (minute t)) @ lit '':'' @ zfill 2 (str_nat (second t)) @
     (if microsecond t = 0 then [] else lit ''.'' @ zfill 6 (str_nat (microsecond t)))"

section \<open>The update endpoint (main.py, update\_customer\_info)\<close>

text \<open>
  The readings of the clock during one request: \<open>datetime.utcnow()\<close> in the handler
  (the update stamp, or the date a new customer joined), the two column defaults
  evaluated when a new \<open>customer_policies\<close> row is inserted, and \<open>datetime.now()\<close> for
  the response.
\<close>

record clock =
  utcnow :: pydatetime
  utcnow_created_at :: pydatetime
  utcnow_updated_at :: pydatetime
  now :: pydatetime

record customer_info_echo =
  ie_customer_name :: pystr
  ie_final_premium_amount :: "pystr option"
  ie_addons_with_amount :: "pystr option"

record customer_policy_echo =
  pe_customer_name :: pystr
  pe_vehicle_insurance :: "pystr option"
  pe_medical_insurance :: "pystr option"
  pe_life_insurance :: "pystr option"
  pe_travel_insurance :: "pystr option"
  pe_home_insurance :: "pystr option"
  pe_vehicle_policy_numbers :: "pystr option"
  pe_medical_policy_numbers :: "pystr option"
  pe_life_policy_numbers :: "pystr option"
  pe_travel_policy_numbers :: "pystr option"
  pe_home_policy_numbers :: "pystr option"
  pe_last_policy_renewal :: "pystr option"
  pe_customer_since :: pystr
  pe_age :: "pystr option"
  pe_location :: "pystr option"
  pe_vehicle_addons :: "pystr option"
  pe_medical_addons :: "pystr option"
  pe_home_addons :: "pystr option"
  pe_travel_addons :: "pystr option"
  pe_life_addons :: "pystr option"
  pe_updated_at :: pystr

record update_response =
  upd_customer_info :: "customer_info_echo option"
  upd_customer_policy :: "customer_policy_echo option"
  upd_timestamp :: pystr

text \<open>Truthiness of an \<open>Optional[str]\<close>: neither \<open>None\<close> nor the empty string.\<close>

fun truthy :: "pystr option \<Rightarrow> bool" where
  "truthy None = False"
| "truthy (Some s) = (s \<noteq> [])"

text \<open>
  \<open>db.query(CustomerInfo).filter(CustomerInfo.customer_name == name).first()\<close> and
  its sibling on \<open>customer_policies\<close>.
\<close>

definition first_customer_info :: "tables \<Rightarrow> pystr \<Rightarrow> CustomerInfo option" where
  "first_customer_info t name = find (\<lambda>r. ci_customer_name r = name) (customer_info t)"

definition first_customer_policy :: "tables \<Rightarrow> pystr \<Rightarrow> CustomerPolicies option" where
  "first_customer_policy t name = find (\<lambda>r. cp_customer_name r = name) (customer_policies t)"

text \<open>Writing a changed row back (UPDATE by primary key) and adding a new one (INSERT).\<close>

definition store_customer_info :: "CustomerInfo \<Rightarrow> tables \<Rightarrow> tables" where
  "store_customer_info r t =
     t\<lparr>customer_info :=
         map (\<lambda>x. if ci_customer_name x = ci_customer_name r then r else x) (customer_info t)\<rparr>"

definition add_customer_info :: "CustomerInfo \<Rightarrow> tables \<Rightarrow> tables" where
  "add_customer_info r t = t\<lparr>customer_info := customer_info t @ [r]\<rparr>"

definition store_customer_policy :: "CustomerPolicies \<Rightarrow> tables \<Rightarrow> tables" where
  "store_customer_policy r t =
     t\<lparr>customer_policies :=
         map (\<lambda>x. if cp_customer_name x = cp_customer_name r then r else x)
           (customer_policies t)\<rparr>"

definition add_customer_policy :: "CustomerPolicies \<Rightarrow> tables \<Rightarrow> tables" where
  "add_customer_policy r t = t\<lparr>customer_policies := customer_policies t @ [r]\<rparr>"

text \<open>Lines 418-433: the row to be written for the \<open>customer_info\<close> sub-payload.\<close>

definition upsert_info_row ::
  "CustomerInfo option \<Rightarrow> CustomerInfoUpdateRequest \<Rightarrow> CustomerInfo" where
  "upsert_info_row found d =
     (case found of
        Some row \<Rightarrow>
          (let row1 =
                 (case ciu_final_premium_amount d of
                    Some v \<Rightarrow> row\<lparr>ci_final_premium_amount := Some (strip v)\<rparr>
                  | None \<Rightarrow> row)
           in row1\<lparr>ci_addons_with_amount := ciu_addons_with_amount d\<rparr>)
      | None \<Rightarrow>
          \<lparr>ci_customer_name = ciu_customer_name d,
           ci_final_premium_amount =
             (if truthy (ciu_final_premium_amount d)
              then map_option strip (ciu_final_premium_amount d) else None),
           ci_addons_with_amount = ciu_addons_with_amount d\<rparr>)"

text \<open>Lines 455-457: the loop over the set fields of the payload.\<close>

fun apply_fields :: "(policy_field \<times> pystr option) list \<Rightarrow> CustomerPolicies \<Rightarrow> CustomerPolicies"
where
  "apply_fields [] r = r"
| "apply_fields ((field, value) # rest) r =
     apply_fields rest
       (case value of
          Some v \<Rightarrow> if field \<noteq> F_customer_name then setattr_policy r field v else r
        | None \<Rightarrow> r)"

text \<open>Lines 453-484: the row to be written for the \<open>customer_policy\<close> sub-payload.\<close>

definition upsert_policy_row ::
  "clock \<Rightarrow> CustomerPolicies option \<Rightarrow> CustomerPolicyUpdateRequest \<Rightarrow> CustomerPolicies" where
  "upsert_policy_row clk found d =
     (case found of
        Some row \<Rightarrow>
          (apply_fields (dict_exclude_unset d) row)
            \<lparr>cp_updated_at := Some (utcnow clk)\<rparr>
      | None \<Rightarrow>
          \<lparr>cp_customer_name = cpu_customer_name d,
           cp_vehicle_insurance = attr (cpu_vehicle_insurance d),
           cp_medical_insurance = attr (cpu_medical_insurance d),
           cp_life_insurance = attr (cpu_life_insurance d),
           cp_travel_insurance = attr (cpu_travel_insurance d),
           cp_home_insurance = attr (cpu_home_insurance d),
           cp_vehicle_policy_numbers = attr (cpu_vehicle_policy_numbers d),
           cp_medical_policy_numbers = attr (cpu_medical_policy_numbers d),
           cp_life_policy_numbers = attr (cpu_life_policy_numbers d),
           cp_travel_policy_numbers = attr (cpu_travel_policy_numbers d),
           cp_home_policy_numbers = attr (cpu_home_policy_numbers d),
           cp_last_policy_renewal = None,
           cp_customer_since = dt_date (utcnow clk),
           cp_age = attr (cpu_age d),
           cp_location = attr (cpu_location d),
           cp_vehicle_addons = attr (cpu_vehicle_addons d),
           cp_medical_addons = attr (cpu_medical_addons d),
           cp_home_addons = attr (cpu_home_addons d),
           cp_travel_addons = attr (cpu_travel_addons d),
           cp_life_addons = attr (cpu_life_addons d),
           cp_created_at = Some (utcnow_created_at clk),
           cp_updated_at = Some (utcnow_updated_at clk)\<rparr>)"

definition echo_info :: "CustomerInfo \<Rightarrow> customer_info_echo" where
  "echo_info r =
     \<lparr>ie_customer_name = ci_customer_name r,
      ie_final_premium_amount = ci_final_premium_amount r,
      ie_addons_with_amount = ci_addons_with_amount r\<rparr>"

text \<open>
  Lines 489-511.  \<open>customer_policy.updated_at.isoformat()\<close> raises when the column is
  null, so the echo is a partial function.
\<close>

definition echo_policy :: "CustomerPolicies \<Rightarrow> customer_policy_echo option" where
  "echo_policy r =
     (case cp_updated_at r of
        None \<Rightarrow> None
      | Some u \<Rightarrow> Some
          \<lparr>pe_customer_name = cp_customer_name r,
           pe_vehicle_insurance = cp_vehicle_insurance r,
           pe_medical_insurance = cp_medical_insurance r,
           pe_life_insurance = cp_life_insurance r,
           pe_travel_insurance = cp_travel_insurance r,
           pe_home_insurance = cp_home_insurance r,
           pe_vehicle_policy_numbers = cp_vehicle_policy_numbers r,
           pe_medical_policy_numbers = cp_medical_policy_numbers r,
           pe_life_policy_numbers = cp_life_policy_numbers r,
           pe_travel_policy_numbers = cp_travel_policy_numbers r,
           pe_home_policy_numbers = cp_home_policy_numbers r,
           pe_last_policy_renewal = map_option isoformat_date (cp_last_policy_renewal r),
           pe_customer_since = isoformat_date (cp_customer_since r),
           pe_age = cp_age r,
           pe_location = cp_location r,
           pe_vehicle_addons = cp_vehicle_addons r,
           pe_medical_addons = cp_medical_addons r,
           pe_home_addons = cp_home_addons r,
           pe_travel_addons = cp_travel_addons r,
           pe_life_addons = cp_life_addons r,
           pe_updated_at = isoformat_datetime u\<rparr>)"

text \<open>
  Lines 410-442: the \<open>customer_info\<close> sub-payload, up to and including its commit.
  \<open>None\<close> is a raised exception; the session is returned as the exception left it.
\<close>

definition process_customer_info ::
  "(tables \<Rightarrow> bool) \<Rightarrow> CustomerInfoUpdateRequest \<Rightarrow> session \<Rightarrow>
     customer_info_echo option \<times> session" where
  "process_customer_info engine_accepts d db =
     (let found = first_customer_info (pending db) (ciu_customer_name d);
          row = upsert_info_row found d;
          db1 = db\<lparr>pending :=
                  (if found = None then add_customer_info row (pending db)
                   else store_customer_info row (pending db))\<rparr>
      in case db_commit engine_accepts db1 of
           None \<Rightarrow> (None, db1)
         | Some db2 \<Rightarrow> (Some (echo_info row), db2))"

text \<open>Lines 445-511: the \<open>customer_policy\<close> sub-payload.\<close>

definition process_customer_policy ::
  "(tables \<Rightarrow> bool) \<Rightarrow> clock \<Rightarrow> CustomerPolicyUpdateRequest \<Rightarrow> session \<Rightarrow>
     customer_policy_echo option \<times> session" where
  "process_customer_policy engine_accepts clk d db =
     (let found = first_customer_policy (pending db) (cpu_customer_name d);
          row = upsert_policy_row clk found d;
          db1 = db\<lparr>pending :=
                  (if found = None then add_customer_policy row (pending db)
                   else store_customer_policy row (pending db))\<rparr>
      in case db_commit engine_accepts db1 of
           None \<Rightarrow> (None, db1)
         | Some db2 \<Rightarrow> (echo_policy row, db2))"

text \<open>
  The handler.  Every exception ends in \<open>db.rollback()\<close> and an HTTP error; the
  session is returned with the result.  \<open>update_policy_part\<close> is the handler from
  line 445 on, given the echo of the first sub-payload (\<open>updated_info\<close> so far).
\<close>

definition update_policy_part ::
  "(tables \<Rightarrow> bool) \<Rightarrow> clock \<Rightarrow> UpdateCustomerInfoRequest \<Rightarrow> customer_info_echo option \<Rightarrow>
     session \<Rightarrow> (http_error + update_response) \<times> session" where
  "update_policy_part engine_accepts clk update_request info db =
     (case ur_customer_policy update_request of
        None \<Rightarrow>
          (if info = None then (Inl BadRequest, db_rollback db)
           else (Inr \<lparr>upd_customer_info = info, upd_customer_policy = None,
                      upd_timestamp = isoformat_datetime (now clk)\<rparr>, db))
      | Some d \<Rightarrow>
          (case process_customer_policy engine_accepts clk d db of
             (None, db') \<Rightarrow> (Inl InternalServerError, db_rollback db')
           | (Some e, db') \<Rightarrow>
               (Inr \<lparr>upd_customer_info = info, upd_customer_policy = Some e,
                     upd_timestamp = isoformat_datetime (now clk)\<rparr>, db')))"

definition update_customer_info ::
  "(tables \<Rightarrow> bool) \<Rightarrow> clock \<Rightarrow> UpdateCustomerInfoRequest \<Rightarrow> session \<Rightarrow>
     (http_error + update_response) \<times> session" where
  "update_customer_info engine_accepts clk update_request db =
     (case ur_customer_info update_request of
        None \<Rightarrow> update_policy_part engine_accepts clk update_request None db
      | Some d \<Rightarrow>
          (case process_customer_info engine_accepts d db of
             (None, db') \<Rightarrow> (Inl InternalServerError, db_rollback db')
           | (Some e, db') \<Rightarrow>
               update_policy_part engine_accepts clk update_request (Some e) db'))"

text \<open>
  The route: \<open>get_db\<close> opens a fresh session on the store, the handler runs, and the
  session is closed, which discards whatever was not committed.
\<close>

definition get_db :: "tables \<Rightarrow> session" where
  "get_db store = \<lparr>committed = store, pending = store\<rparr>"

definition post_updatecustomerinfo ::
  "(tables \<Rightarrow> bool) \<Rightarrow> clock \<Rightarrow> UpdateCustomerInfoRequest \<Rightarrow> tables \<Rightarrow>
     (http_error + update_response) \<times> tables" where
  "post_updatecustomerinfo engine_accepts clk update_request store =
     (case update_customer_info engine_accepts clk update_request (get_db store) of
        (result, db) \<Rightarrow> (result, committed db))"

text \<open>
  One storage engine, for concrete runs: it refuses a commit when a string is longer
  than the declared size of its \<open>customer_policies\<close> or \<open>customer_info\<close> column
  (database.py, lines 69-96 and 106-107).
\<close>

definition fits :: "nat \<Rightarrow> pystr option \<Rightarrow> bool" where
  "fits n v = (case v of None \<Rightarrow> True | Some s \<Rightarrow> length s \<le> n)"

definition policy_row_fits :: "CustomerPolicies \<Rightarrow> bool" where
  "policy_row_fits r \<longleftrightarrow>
     length (cp_customer_name r) \<le> 100 \<and>
     fits 100 (cp_vehicle_insurance r) \<and> fits 100 (cp_medical_insurance r) \<and>
     fits 100 (cp_life_insurance r) \<and> fits 100 (cp_travel_insurance r) \<and>
     fits 100 (cp_home_insurance r) \<and>
     fits 200 (cp_vehicle_policy_numbers r) \<and> fits 200 (cp_medical_policy_numbers r) \<and>
     fits 200 (cp_life_policy_numbers r) \<and> fits 200 (cp_travel_policy_numbers r) \<and>
     fits 200 (cp_home_policy_numbers r) \<and>
     fits 10 (cp_age r) \<and> fits 50 (cp_location r) \<and>
     fits 500 (cp_vehicle_addons r) \<and> fits 500 (cp_medical_addons r) \<and>
     fits 500 (cp_home_addons r) \<and> fits 500 (cp_travel_addons r) \<and>
     fits 500 (cp_life_addons r)"

definition info_row_fits :: "CustomerInfo \<Rightarrow> bool" where
  "info_row_fits r \<longleftrightarrow>
     length (ci_customer_name r) \<le> 100 \<and> fits 50 (ci_final_premium_amount r)"

definition sized_engine :: "tables \<Rightarrow> bool" where
  "sized_engine t \<longleftrightarrow>
     list_all policy_row_fits (customer_policies t) \<and> list_all info_row_fits (customer_info t)"

section \<open>Python numbers and amounts\<close>

text \<open>
  \<open>s.replace(c, "")\<close> for a one-character \<open>c\<close>: every occurrence is deleted.
\<close>

definition remove_char :: "nat \<Rightarrow> pystr \<Rightarrow> pystr" where
  "remove_char c s = filter (\<lambda>x. x \<noteq> c) s"

text \<open>
  The decimal digits of Unicode 14 (category Nd) come in runs of ten, valued 0 to 9;
  \<open>decimal_starts\<close> lists the code point of the zero of each run.  \<open>int\<close> reads
  exactly these characters as digits.
\<close>

definition decimal_starts :: "nat list" where
  "decimal_starts =
     [48, 1632, 1776, 1984, 2406, 2534, 2662, 2790, 2918, 3046, 3174, 3302, 3430, 3558,
      3664, 3792, 3872, 4160, 4240, 6112, 6160, 6470, 6608, 6784, 6800, 6992, 7088, 7232,
      7248, 42528, 43216, 43264, 43472, 43504, 43600, 44016, 65296, 66720, 68912, 69734,
      69872, 69942, 70096, 70384, 70736, 70864, 71248, 71360, 71472, 71904, 72016, 72784,
      73040, 73120, 92768, 92864, 93008, 120782, 120792, 120802, 120812, 120822, 123200,
      123632, 125264, 130032]"

definition decimal_value :: "nat \<Rightarrow> nat option" where
  "decimal_value c =
     map_option (\<lambda>s. c - s) (find (\<lambda>s. s \<le> c \<and> c < s + 10) decimal_starts)"

text \<open>
  \<open>str.isdigit\<close> also accepts the characters whose numeric type is Digit without
  being decimal: superscripts, subscripts, circled digits and the like (the library
  reference of \<open>str.isdigit\<close> names the superscript digits).
\<close>

definition other_digits :: "(nat \<times> nat) list" where
  "other_digits =
     [(178, 179), (185, 185), (4969, 4977), (6618, 6618), (8304, 8304), (8308, 8313),
      (8320, 8329), (9312, 9320), (9332, 9340), (9352, 9360), (9450, 9450), (9461, 9469),
      (9471, 9471), (10102, 10110), (10112, 10120), (10122, 10130), (68160, 68163),
      (69216, 69224), (69714, 69722), (127232, 127242)]"

definition isdigit_char :: "nat \<Rightarrow> bool" where
  "isdigit_char c \<longleftrightarrow>
     decimal_value c \<noteq> None \<or> list_ex (\<lambda>(lo, hi). lo \<le> c \<and> c \<le> hi) other_digits"

text \<open>\<open>s.isdigit()\<close>: at least one character, and all of them digits.\<close>

definition isdigit :: "pystr \<Rightarrow> bool" where
  "isdigit s \<longleftrightarrow> s \<noteq> [] \<and> list_all isdigit_char s"

text \<open>
  \<open>int(s)\<close> for a string that passed \<open>isdigit\<close> (so no sign, space or underscore):
  the decimal number it spells, and \<open>ValueError\<close>, here \<open>None\<close>, when a character
  is not a decimal digit.
\<close>

fun int_digits :: "pystr \<Rightarrow> nat \<Rightarrow> nat option" where
  "int_digits [] acc = Some acc"
| "int_digits (c # cs) acc =
     (case decimal_value c of
        None \<Rightarrow> None
      | Some d \<Rightarrow> int_digits cs (10 * acc + d))"

definition int_of_str :: "pystr \<Rightarrow> nat option" where
  "int_of_str s = int_digits s 0"

text \<open>\<open>f"{n:,}"\<close>: decimal digits in groups of three.\<close>

fun format_commas :: "nat \<Rightarrow> pystr" where
  "format_commas n =
     (if n < 1000 then str_nat n
      else format_commas (n div 1000) @ lit '','' @ zfill 3 (str_nat (n mod 1000)))"

text \<open>
  A Python \<open>float\<close> is an IEEE binary64 number; a finite one is a rational, and is
  modelled by it.  \<open>binary64 q\<close> is the float nearest to the rational \<open>q \<ge> 0\<close>, ties
  to the even significand, for \<open>q\<close> in the normal range (from \<open>2\<^sup>-\<^sup>1\<^sup>0\<^sup>2\<^sup>2\<close> up to the
  largest float), where every quotient of two list lengths lies.
\<close>

definition round_half_even :: "rat \<Rightarrow> int" where
  "round_half_even q =
     (let f = \<lfloor>q\<rfloor>; d = q - of_int f
      in if d < 1 / 2 then f else if 1 / 2 < d then f + 1 else if even f then f else f + 1)"

text \<open>\<open>ilog2 q\<close> is the exponent \<open>e\<close> with \<open>2\<^sup>e \<le> q < 2\<^sup>e\<^sup>+\<^sup>1\<close>, for \<open>q > 0\<close>.\<close>

definition ilog2 :: "rat \<Rightarrow> int" where
  "ilog2 q =
     (case quotient_of q of
        (n, d) \<Rightarrow>
          (let k = bitlen n - bitlen d in if power_int 2 k \<le> q then k else k - 1))"

definition binary64 :: "rat \<Rightarrow> rat" where
  "binary64 q =
     (if q = 0 then 0
      else (let u = power_int 2 (ilog2 q - 52) in of_int (round_half_even (q / u)) * u))"

text \<open>
  \<open>a / b\<close> on two \<open>int\<close>s (the correctly rounded quotient; called with \<open>b > 0\<close>),
  \<open>x * y\<close> on two floats, and \<open>round(x, 2)\<close>: the decimal with two places nearest
  to \<open>x\<close>, ties to the even digit, converted back to the nearest float.
\<close>

definition true_div :: "nat \<Rightarrow> nat \<Rightarrow> rat" where
  "true_div a b = binary64 (of_nat a / of_nat b)"

definition float_mul :: "rat \<Rightarrow> rat \<Rightarrow> rat" where
  "float_mul x y = binary64 (x * y)"

definition round2 :: "rat \<Rightarrow> rat" where
  "round2 x = binary64 (of_int (round_half_even (x * 100)) / 100)"

datatype pynum = PyInt int | PyFloat rat

section \<open>The lookup endpoint (main.py, get\_customer\_info)\<close>

record ClaimResponse =
  cr_claim_id :: pystr
  cr_policy_number :: pystr
  cr_claim_type :: pystr
  cr_amount :: pystr
  cr_date_submitted :: pystr
  cr_description :: pystr
  cr_status :: pystr
  cr_rejection_reason :: "pystr option"

record claims_summary =
  cs_total_claims :: nat
  cs_approved_claims :: nat
  cs_rejected_claims :: nat
  cs_under_review_claims :: nat
  cs_approval_rate :: pynum
  cs_total_approved_amount :: pystr
  cs_total_rejected_amount :: pystr
  cs_last_claim_date :: "pystr option"

record CustomerPolicyResponse =
  cpr_customer_name :: pystr
  cpr_vehicle_insurance :: "pystr option"
  cpr_medical_insurance :: "pystr option"
  cpr_life_insurance :: "pystr option"
  cpr_travel_insurance :: "pystr option"
  cpr_home_insurance :: "pystr option"
  cpr_vehicle_policy_numbers :: "pystr option"
  cpr_medical_policy_numbers :: "pystr option"
  cpr_life_policy_numbers :: "pystr option"
  cpr_travel_policy_numbers :: "pystr option"
  cpr_home_policy_numbers :: "pystr option"
  cpr_last_policy_renewal :: "pystr option"
  cpr_customer_since :: pystr
  cpr_age :: "pystr option"
  cpr_location :: "pystr option"
  cpr_vehicle_addons :: "pystr option"
  cpr_medical_addons :: "pystr option"
  cpr_home_addons :: "pystr option"
  cpr_travel_addons :: "pystr option"
  cpr_life_addons :: "pystr option"

record CustomerInfoResponse =
  cir_customer_policy :: CustomerPolicyResponse
  cir_claims :: "ClaimResponse list"
  cir_claims_summary :: claims_summary

text \<open>
  Lines 174-176: the claims of a customer, latest submission first.  The key orders
  time stamps; a null time stamp sorts below every other, hence last.  The order among
  equal time stamps is the engine's; the model keeps one.
\<close>

definition datetime_key :: "pydatetime \<Rightarrow> nat" where
  "datetime_key t =
     (((((year (dt_date t) * 13 + month (dt_date t)) * 32 + day (dt_date t)) * 24 + hour t) * 60
        + minute t) * 60 + second t) * 1000000 + microsecond t"

definition submitted_key :: "InsuranceClaims \<Rightarrow> nat" where
  "submitted_key c = (case ic_date_submitted c of None \<Rightarrow> 0 | Some t \<Rightarrow> datetime_key t + 1)"

definition query_claims :: "tables \<Rightarrow> pystr \<Rightarrow> InsuranceClaims list" where
  "query_claims t customer_name =
     rev (sort_key submitted_key
            (filter (\<lambda>c. ic_customer_name c = customer_name) (insurance_claims t)))"

text \<open>Lines 181-190.\<close>

definition claim_response :: "InsuranceClaims \<Rightarrow> ClaimResponse" where
  "claim_response claim =
     \<lparr>cr_claim_id = ic_claim_id claim,
      cr_policy_number = ic_policy_number claim,
      cr_claim_type = ic_claim_type claim,
      cr_amount = ic_amount claim,
      cr_date_submitted =
        (case ic_date_submitted claim of None \<Rightarrow> [] | Some t \<Rightarrow> isoformat_datetime t),
      cr_description = ic_description claim,
      cr_status = ic_status claim,
      cr_rejection_reason = ic_rejection_reason claim\<rparr>"

text \<open>
  Lines 202-210, one loop for each of the two buckets: the amount with the rupee sign
  (U+20B9), the question mark and the commas removed and the white space stripped is
  added when \<open>isdigit\<close> holds.  \<open>None\<close> is the \<open>ValueError\<close> of \<open>int\<close>.
\<close>

definition amount_str :: "pystr \<Rightarrow> pystr" where
  "amount_str amount = strip (remove_char 44 (remove_char 63 (remove_char 8377 amount)))"

fun add_amounts :: "InsuranceClaims list \<Rightarrow> nat \<Rightarrow> nat option" where
  "add_amounts [] total_amount = Some total_amount"
| "add_amounts (claim # rest) total_amount =
     (if isdigit (amount_str (ic_amount claim))
      then (case int_of_str (amount_str (ic_amount claim)) of
              None \<Rightarrow> None
            | Some n \<Rightarrow> add_amounts rest (total_amount + n))
      else add_amounts rest total_amount)"

text \<open>Line 217.\<close>

definition approval_rate :: "nat \<Rightarrow> nat \<Rightarrow> pynum" where
  "approval_rate approved total_claims =
     (if total_claims > 0
      then PyFloat (round2 (float_mul (true_div approved total_claims) 100))
      else PyInt 0)"

text \<open>
  Line 220: \<open>claims[0].date_submitted.isoformat() if claims else None\<close>; the
  attribute access raises when the first claim has no time stamp (outer \<open>None\<close>).
\<close>

definition last_claim_date :: "InsuranceClaims list \<Rightarrow> pystr option option" where
  "last_claim_date claims =
     (case claims of
        [] \<Rightarrow> Some None
      | c # cs \<Rightarrow>
          (case ic_date_submitted c of
             None \<Rightarrow> None
           | Some t \<Rightarrow> Some (Some (isoformat_datetime t))))"

text \<open>Lines 193-221: the summary, or \<open>None\<close> when an exception is raised.\<close>

definition summarize :: "InsuranceClaims list \<Rightarrow> claims_summary option" where
  "summarize claims =
     (let total_claims = length claims;
          approved_claims = filter (\<lambda>c. ic_status c = lit ''APPROVED'') claims;
          rejected_claims = filter (\<lambda>c. ic_status c = lit ''REJECTED'') claims;
          under_review_claims = filter (\<lambda>c. ic_status c = lit ''UNDER_REVIEW'') claims
      in case add_amounts approved_claims 0 of
           None \<Rightarrow> None
         | Some total_approved_amount \<Rightarrow>
             (case add_amounts rejected_claims 0 of
                None \<Rightarrow> None
              | Some total_rejected_amount \<Rightarrow>
                  (case last_claim_date claims of
                     None \<Rightarrow> None
                   | Some last_date \<Rightarrow> Some
                       \<lparr>cs_total_claims = total_claims,
                        cs_approved_claims = length approved_claims,
                        cs_rejected_claims = length rejected_claims,
                        cs_under_review_claims = length under_review_claims,
                        cs_approval_rate = approval_rate (length approved_claims) total_claims,
                        cs_total_approved_amount = format_commas total_approved_amount,
                        cs_total_rejected_amount = format_commas total_rejected_amount,
                        cs_last_claim_date = last_date\<rparr>)))"

text \<open>Lines 224-245.\<close>

definition customer_policy_response :: "CustomerPolicies \<Rightarrow> CustomerPolicyResponse" where
  "customer_policy_response r =
     \<lparr>cpr_customer_name = cp_customer_name r,
      cpr_vehicle_insurance = cp_vehicle_insurance r,
      cpr_medical_insurance = cp_medical_insurance r,
      cpr_life_insurance = cp_life_insurance r,
      cpr_travel_insurance = cp_travel_insurance r,
      cpr_home_insurance = cp_home_insurance r,
      cpr_vehicle_policy_numbers = cp_vehicle_policy_numbers r,
      cpr_medical_policy_numbers = cp_medical_policy_numbers r,
      cpr_life_policy_numbers = cp_life_policy_numbers r,
      cpr_travel_policy_numbers = cp_travel_policy_numbers r,
      cpr_home_policy_numbers = cp_home_policy_numbers r,
      cpr_last_policy_renewal = map_option isoformat_date (cp_last_policy_renewal r),
      cpr_customer_since = isoformat_date (cp_customer_since r),
      cpr_age = cp_age r,
      cpr_location = cp_location r,
      cpr_vehicle_addons = cp_vehicle_addons r,
      cpr_medical_addons = cp_medical_addons r,
      cpr_home_addons = cp_home_addons r,
      cpr_travel_addons = cp_travel_addons r,
      cpr_life_addons = cp_life_addons r\<rparr>"

text \<open>
  The handler: 404 when the customer has no policy record, 500 for every other
  exception.  It only reads the store.
\<close>

definition get_customer_info :: "pystr \<Rightarrow> tables \<Rightarrow> http_error + CustomerInfoResponse" where
  "get_customer_info customer_name t =
     (case first_customer_policy t customer_name of
        None \<Rightarrow> Inl NotFound
      | Some row \<Rightarrow>
          (let claims = query_claims t customer_name
           in case summarize claims of
                None \<Rightarrow> Inl InternalServerError
              | Some summary \<Rightarrow> Inr
                  \<lparr>cir_customer_policy = customer_policy_response row,
                   cir_claims = map claim_response claims,
                   cir_claims_summary = summary\<rparr>))"

section \<open>The search endpoint (main.py, search\_customers)\<close>

record customer_result =
  res_customer_name :: pystr
  res_age :: "pystr option"
  res_location :: "pystr option"
  res_customer_since :: pystr
  res_last_policy_renewal :: "pystr option"
  res_active_policies :: "pystr list"

text \<open>
  The two shapes of the answer: the empty listing has no \<open>search_term\<close> key (outer
  \<open>None\<close>); the other carries the filter, null when there was none.
\<close>

record search_response =
  sr_search_term :: "pystr option option"
  sr_total :: nat
  sr_customers :: "customer_result list"

text \<open>Lines 301-309.\<close>

definition active_policies :: "CustomerPolicies \<Rightarrow> pystr list" where
  "active_policies customer =
     map fst
       (filter (\<lambda>(policy_type, v). v \<noteq> None)
          [(lit ''vehicle'', cp_vehicle_insurance customer),
           (lit ''medical'', cp_medical_insurance customer),
           (lit ''life'', cp_life_insurance customer),
           (lit ''travel'', cp_travel_insurance customer),
           (lit ''home'', cp_home_insurance customer)])"

definition customer_result_of :: "CustomerPolicies \<Rightarrow> customer_result" where
  "customer_result_of customer =
     \<lparr>res_customer_name = cp_customer_name customer,
      res_age = cp_age customer,
      res_location = cp_location customer,
      res_customer_since = isoformat_date (cp_customer_since customer),
      res_last_policy_renewal = map_option isoformat_date (cp_last_policy_renewal customer),
      res_active_policies = active_policies customer\<rparr>"

text \<open>
  The handler.  \<open>ILIKE\<close> is evaluated by the storage engine and is a parameter:
  \<open>ilike pattern v\<close> tells whether the value \<open>v\<close> matches the pattern, here the
  filter between two \<open>%\<close>.  \<open>if name\<close> is the truthiness of the filter.
\<close>

definition search_customers ::
  "(pystr \<Rightarrow> pystr \<Rightarrow> bool) \<Rightarrow> pystr option \<Rightarrow> tables \<Rightarrow> http_error + search_response" where
  "search_customers ilike name t =
     (let customers =
            (if truthy name
             then filter (\<lambda>r. ilike (lit ''%'' @ the name @ lit ''%'') (cp_customer_name r))
                    (customer_policies t)
             else customer_policies t)
      in if customers = []
         then (if truthy name then Inl NotFound
               else Inr \<lparr>sr_search_term = None, sr_total = 0, sr_customers = []\<rparr>)
         else Inr \<lparr>sr_search_term = Some name,
                   sr_total = length (map customer_result_of customers),
                   sr_customers = map customer_result_of customers\<rparr>)"

section \<open>Concrete data for runs\<close>

definition example_clock :: clock where
  "example_clock =
     \<lparr>utcnow = \<lparr>dt_date = \<lparr>year = 2025, month = 3, day = 9\<rparr>, hour = 10, minute = 5, second = 7,
                 microsecond = 0\<rparr>,
      utcnow_created_at = \<lparr>dt_date = \<lparr>year = 2025, month = 3, day = 9\<rparr>, hour = 10, minute = 5,
                 second = 7, microsecond = 120\<rparr>,
      utcnow_updated_at = \<lparr>dt_date = \<lparr>year = 2025, month = 3, day = 9\<rparr>, hour = 10, minute = 5,
                 second = 7, microsecond = 125\<rparr>,
      now = \<lparr>dt_date = \<lparr>year = 2025, month = 3, day = 9\<rparr>, hour = 15, minute = 35, second = 7,
                 microsecond = 300\<rparr>\<rparr>"

definition example_policy :: CustomerPolicies where
  "example_policy =
     \<lparr>cp_customer_name = lit ''Diya'',
      cp_vehicle_insurance = Some (lit ''Car''),
      cp_medical_insurance = Some (lit ''Family''),
      cp_life_insurance = None,
      cp_travel_insurance = None,
      cp_home_insurance = None,
      cp_vehicle_policy_numbers = Some (lit ''DCAR00920600359/00''),
      cp_medical_policy_numbers = Some (lit ''DMED00920600359/00''),
      cp_life_policy_numbers = None,
      cp_travel_policy_numbers = None,
      cp_home_policy_numbers = None,
      cp_last_policy_renewal = Some \<lparr>year = 2024, month = 11, day = 2\<rparr>,
      cp_customer_since = \<lparr>year = 2021, month = 6, day = 15\<rparr>,
      cp_age = Some (lit ''25-30''),
      cp_location = Some (lit ''Chennai''),
      cp_vehicle_addons = Some (lit ''Zero Depreciation''),
      cp_medical_addons = None,
      cp_home_addons = None,
      cp_travel_addons = None,
      cp_life_addons = None,
      cp_created_at = None,
      cp_updated_at = None\<rparr>"

definition example_claim :: "string \<Rightarrow> pystr \<Rightarrow> nat \<Rightarrow> string \<Rightarrow> InsuranceClaims" where
  "example_claim ident amount d status =
     \<lparr>ic_claim_id = lit ident,
      ic_policy_number = lit ''DCAR00920600359/00'',
      ic_customer_name = lit ''Diya'',
      ic_claim_type = lit ''Vehicle'',
      ic_amount = amount,
      ic_date_submitted =
        Some \<lparr>dt_date = \<lparr>year = 2025, month = 1, day = d\<rparr>, hour = 9, minute = 30, second = 0,
              microsecond = 0\<rparr>,
      ic_description = lit ''Windshield'',
      ic_status = lit status,
      ic_rejection_reason = None\<rparr>"

text \<open>Four claims; the first amount starts with the rupee sign, U+20B9.\<close>

definition example_claims :: "InsuranceClaims list" where
  "example_claims =
     [example_claim ''CLM1'' (8377 # lit ''45,000'') 4 ''APPROVED'',
      example_claim ''CLM2'' (lit ''?12,500 '') 7 ''REJECTED'',
      example_claim ''CLM3'' (lit ''7,000'') 2 ''Under Review'',
      example_claim ''CLM4'' (lit ''about 900'') 9 ''APPROVED'']"

definition example_store :: tables where
  "example_store =
     \<lparr>customer_policies = [example_policy], insurance_claims = example_claims,
      customer_info =
        [\<lparr>ci_customer_name = lit ''Diya'',
          ci_final_premium_amount = Some (lit ''15,000''),
          ci_addons_with_amount = Some (lit ''Consumables Coverage: 1,500'')\<rparr>]\<rparr>"

definition unset_policy_update :: "pystr \<Rightarrow> CustomerPolicyUpdateRequest" where
  "unset_policy_update name =
     \<lparr>cpu_customer_name = name,
      cpu_vehicle_insurance = Unset, cpu_medical_insurance = Unset, cpu_life_insurance = Unset,
      cpu_travel_insurance = Unset, cpu_home_insurance = Unset,
      cpu_vehicle_policy_numbers = Unset, cpu_medical_policy_numbers = Unset,
      cpu_life_policy_numbers = Unset, cpu_travel_policy_numbers = Unset,
      cpu_home_policy_numbers = Unset,
      cpu_age = Unset, cpu_location = Unset,
      cpu_vehicle_addons = Unset, cpu_medical_addons = Unset, cpu_home_addons = Unset,
      cpu_travel_addons = Unset, cpu_life_addons = Unset\<rparr>"

definition example_policy_update :: CustomerPolicyUpdateRequest where
  "example_policy_update =
     (unset_policy_update (lit ''Diya''))
       \<lparr>cpu_vehicle_insurance := Value (lit ''Car, Bike''), cpu_medical_insurance := Null\<rparr>"

definition example_policy_create :: CustomerPolicyUpdateRequest where
  "example_policy_create =
     (unset_policy_update (lit ''Asha''))
       \<lparr>cpu_age := Value (lit ''31-35''), cpu_location := Null\<rparr>"

definition example_info_update :: CustomerInfoUpdateRequest where
  "example_info_update =
     \<lparr>ciu_customer_name = lit ''Diya'',
      ciu_final_premium_amount = Some (lit '' 16,500 ''),
      ciu_addons_with_amount = None\<rparr>"

definition example_policy_too_long :: CustomerPolicyUpdateRequest where
  "example_policy_too_long =
     (unset_policy_update (lit ''Diya''))\<lparr>cpu_age := Value (lit ''twenty-five to thirty'')\<rparr>"

text \<open>
  A store whose only claim is approved and has the amount \<open>\<^sup>2\<close>, the superscript
  two (U+00B2).
\<close>

definition superscript_store :: tables where
  "superscript_store =
     \<lparr>customer_policies = [example_policy],
      insurance_claims = [example_claim ''CLM9'' [178] 4 ''APPROVED''],
      customer_info = []\<rparr>"

definition empty_store :: tables where
  "empty_store = \<lparr>customer_policies = [], insurance_claims = [], customer_info = []\<rparr>"

text \<open>
  One engine's \<open>ILIKE\<close>, the \<open>LIKE\<close> of SQL on operands in lower case: \<open>%\<close>
  matches any run of characters, \<open>_\<close> any one character, and ASCII letters match
  without regard to case.
\<close>

definition ascii_lower :: "nat \<Rightarrow> nat" where
  "ascii_lower c = (if 65 \<le> c \<and> c \<le> 90 then c + 32 else c)"

fun like :: "pystr \<Rightarrow> pystr \<Rightarrow> bool" where
  "like [] [] = True"
| "like [] (c # cs) = False"
| "like (p # ps) [] = (p = 37 \<and> like ps [])"
| "like (p # ps) (c # cs) =
     (if p = 37 then like ps (c # cs) \<or> like (p # ps) cs
      else (p = 95 \<or> p = c) \<and> like ps cs)"

definition ascii_ilike :: "pystr \<Rightarrow> pystr \<Rightarrow> bool" where
  "ascii_ilike pattern v = like (map ascii_lower pattern) (map ascii_lower v)"

text \<open>
  A store in which Diya has 160 claims, the first 23 of them approved.
\<close>

definition tie_claim :: "nat \<Rightarrow> InsuranceClaims" where
  "tie_claim i =
     (example_claim ''TIE'' (lit ''100'') 4 (if i < 23 then ''APPROVED'' else ''REJECTED''))
       \<lparr>ic_claim_id := lit ''TIE'' @ str_nat i\<rparr>"

definition tie_store :: tables where
  "tie_store =
     \<lparr>customer_policies = [example_policy],
      insurance_claims = map tie_claim [0..<160],
      customer_info = []\<rparr>"

section \<open>The words of the specification\<close>

text \<open>
  Two notions are taken from the specification rather than from the code, to compare
  the code with them.  The first is the matching of the search: the filter is a
  substring of the name, letters compared without regard to case (ASCII letters are
  folded, other characters compared as they are).
\<close>

fun starts_with :: "pystr \<Rightarrow> pystr \<Rightarrow> bool" where
  "starts_with [] v = True"
| "starts_with (x # xs) [] = False"
| "starts_with (x # xs) (c # cs) = (x = c \<and> starts_with xs cs)"

fun is_substring :: "pystr \<Rightarrow> pystr \<Rightarrow> bool" where
  "is_substring p [] = (p = [])"
| "is_substring p (c # cs) = (starts_with p (c # cs) \<or> is_substring p cs)"

definition contains_ci :: "pystr \<Rightarrow> pystr \<Rightarrow> bool" where
  "contains_ci n v = is_substring (map ascii_lower n) (map ascii_lower v)"

text \<open>
  The second is the approval rate: approved over total times 100, rounded to two
  decimal places, computed exactly (a tie goes to the even digit, as the \<open>round\<close>
  of Python does on a number it holds exactly).  \<open>exact_hundredths\<close> is the exact
  percentage counted in hundredths.
\<close>

definition exact_hundredths :: "nat \<Rightarrow> nat \<Rightarrow> rat" where
  "exact_hundredths approved total_claims =
     of_nat approved / of_nat total_claims * 100 * 100"

definition spec_approval_rate :: "nat \<Rightarrow> nat \<Rightarrow> rat" where
  "spec_approval_rate approved total_claims =
     of_int (round_half_even (exact_hundredths approved total_claims)) / 100"

text \<open>
  The exact percentage lies halfway between two values of two decimals.
\<close>

definition halfway :: "nat \<Rightarrow> nat \<Rightarrow> bool" where
  "halfway approved total_claims \<longleftrightarrow>
     exact_hundredths approved total_claims -
       of_int \<lfloor>exact_hundredths approved total_claims\<rfloor> = 1 / 2"

section \<open>Looking rows up after a write\<close>

lemma find_replace_same:
  "find (\<lambda>x. key x = k) xs = Some old \<Longrightarrow> key r = k \<Longrightarrow>
   find (\<lambda>x. key x = k) (map (\<lambda>x. if key x = k then r else x) xs) = Some r"
  by (induction xs) (auto split: if_splits)

lemma find_replace_other:
  "k' \<noteq> k \<Longrightarrow> key r = k \<Longrightarrow>
   find (\<lambda>x. key x = k') (map (\<lambda>x. if key x = k then r else x) xs) = find (\<lambda>x. key x = k') xs"
  by (induction xs) auto

lemma find_append_new:
  "find P xs = None \<Longrightarrow> P r \<Longrightarrow> find P (xs @ [r]) = Some r"
  by (induction xs) (auto split: if_splits)

lemma find_append_other:
  "\<not> P r \<Longrightarrow> find P (xs @ [r]) = find P xs"
  by (induction xs) auto

lemma find_Some_key: "find (\<lambda>x. key x = k) xs = Some r \<Longrightarrow> key r = k"
  by (auto simp: find_Some_iff)

lemma upsert_info_row_name:
  "(\<And>old. found = Some old \<Longrightarrow> ci_customer_name old = ciu_customer_name d) \<Longrightarrow>
   ci_customer_name (upsert_info_row found d) = ciu_customer_name d"
  by (auto simp: upsert_info_row_def Let_def split: option.splits)

lemma first_info_add:
  "first_customer_info t (ci_customer_name r) = None \<Longrightarrow>
   first_customer_info (add_customer_info r t) (ci_customer_name r) = Some r"
  by (simp add: first_customer_info_def add_customer_info_def find_append_new)

lemma first_info_store:
  "first_customer_info t (ci_customer_name r) = Some old \<Longrightarrow>
   first_customer_info (store_customer_info r t) (ci_customer_name r) = Some r"
  unfolding first_customer_info_def store_customer_info_def
  by (simp add: find_replace_same [where key = ci_customer_name])

lemma process_customer_info_Some:
  assumes "process_customer_info engine_accepts d db = (Some e, db')"
  shows "e = echo_info (upsert_info_row (first_customer_info (pending db) (ciu_customer_name d)) d)"
    and "pending db' = committed db'"
    and "committed db' =
          (if first_customer_info (pending db) (ciu_customer_name d) = None
           then add_customer_info (upsert_info_row None d) (pending db)
           else store_customer_info
                  (upsert_info_row (first_customer_info (pending db) (ciu_customer_name d)) d)
                  (pending db))"
  using assms
  by (auto simp: process_customer_info_def Let_def db_commit_def split: if_splits)


lemma process_customer_policy_info_table:
  "process_customer_policy engine_accepts clk d db = (r, db') \<Longrightarrow>
   pending db = committed db \<Longrightarrow>
   customer_info (committed db') = customer_info (committed db)"
  by (auto simp: process_customer_policy_def Let_def db_commit_def add_customer_policy_def
      store_customer_policy_def split: if_splits)

lemma update_policy_part_info:
  assumes "update_policy_part engine_accepts clk req info db = (res, db')"
    and "pending db = committed db"
  shows "customer_info (committed db') = customer_info (committed db)"
proof (cases "ur_customer_policy req")
  case None
  with assms show ?thesis
    by (auto simp: update_policy_part_def db_rollback_def split: if_splits)
next
  case (Some p)
  obtain r db2 where p: "process_customer_policy engine_accepts clk p db = (r, db2)"
    by (cases "process_customer_policy engine_accepts clk p db")
  have "customer_info (committed db2) = customer_info (committed db)"
    by (rule process_customer_policy_info_table [OF p assms(2)])
  moreover have "committed db' = committed db2"
    using assms(1) Some p
    by (cases r) (auto simp: update_policy_part_def db_rollback_def)
  ultimately show ?thesis by simp
qed

lemma update_policy_part_echo:
  "update_policy_part engine_accepts clk req info db = (Inr resp, db') \<Longrightarrow>
   upd_customer_info resp = info"
  by (auto simp: update_policy_part_def split: option.splits if_splits prod.splits)


lemma update_customer_info_Inr:
  assumes req: "ur_customer_info req = Some d"
    and run: "post_updatecustomerinfo engine_accepts clk req store = (Inr resp, store')"
  shows "first_customer_info store' (ciu_customer_name d) =
           Some (upsert_info_row (first_customer_info store (ciu_customer_name d)) d)"
    and "upd_customer_info resp =
           Some (echo_info (upsert_info_row (first_customer_info store (ciu_customer_name d)) d))"
proof -
  let ?db = "get_db store"
  let ?found = "first_customer_info store (ciu_customer_name d)"
  let ?new = "upsert_info_row ?found d"
  obtain res0 db' where h0: "update_customer_info engine_accepts clk req ?db = (res0, db')"
    by (cases "update_customer_info engine_accepts clk req ?db")
  with run have res0: "res0 = Inr resp" and st: "store' = committed db'"
    by (simp_all add: post_updatecustomerinfo_def)
  obtain r1 db1 where p1': "process_customer_info engine_accepts d ?db = (r1, db1)"
    by (cases "process_customer_info engine_accepts d ?db")
  have h1: "(case r1 of None \<Rightarrow> (Inl InternalServerError, db_rollback db1)
             | Some e \<Rightarrow> update_policy_part engine_accepts clk req (Some e) db1)
            = (Inr resp, db')"
    using h0 res0 req p1' by (simp add: update_customer_info_def)
  then obtain e where r1: "r1 = Some e" by (cases r1) simp_all
  have p1: "process_customer_info engine_accepts d ?db = (Some e, db1)"
    using p1' r1 by simp
  have p2: "update_policy_part engine_accepts clk req (Some e) db1 = (Inr resp, db')"
    using h1 r1 by simp
  have pend: "pending ?db = store" by (simp add: get_db_def)
  note facts = process_customer_info_Some [OF p1, unfolded pend]
  have e: "e = echo_info ?new" using facts(1) .
  have clean: "pending db1 = committed db1" using facts(2) .
  have name: "ci_customer_name ?new = ciu_customer_name d"
  proof (rule upsert_info_row_name)
    fix old assume "?found = Some old"
    then show "ci_customer_name old = ciu_customer_name d"
      unfolding first_customer_info_def by (rule find_Some_key)
  qed
  have look1: "first_customer_info (committed db1) (ciu_customer_name d) = Some ?new"
  proof (cases ?found)
    case None
    then have "committed db1 = add_customer_info ?new store" using facts(3) by simp
    moreover have "first_customer_info (add_customer_info ?new store) (ci_customer_name ?new)
        = Some ?new"
    proof (rule first_info_add)
      show "first_customer_info store (ci_customer_name ?new) = None"
        unfolding name by (rule None)
    qed
    ultimately show ?thesis by (simp add: name)
  next
    case (Some old)
    then have "committed db1 = store_customer_info ?new store" using facts(3) by simp
    moreover have "first_customer_info (store_customer_info ?new store) (ci_customer_name ?new)
        = Some ?new"
    proof (rule first_info_store)
      show "first_customer_info store (ci_customer_name ?new) = Some old"
        unfolding name by (rule Some)
    qed
    ultimately show ?thesis by (simp add: name)
  qed
  have "customer_info (committed db') = customer_info (committed db1)"
    by (rule update_policy_part_info [OF p2 clean])
  then show "first_customer_info store' (ciu_customer_name d) = Some ?new"
    using look1 by (simp add: first_customer_info_def st)
  show "upd_customer_info resp = Some (echo_info ?new)"
    using update_policy_part_echo [OF p2] e by simp
qed

lemma strip_Nil: "strip [] = []"
  by (simp add: strip_def)

section \<open>The update endpoint: the summary record\<close>

text \<open>
  Claim C2.  When the \<open>customer_info\<close> sub-payload names a customer whose summary
  record exists and the request succeeds, the stored \<open>addons_with_amount\<close> is the
  supplied value whatever it is (null included), and the stored
  \<open>final_premium_amount\<close> is the supplied value stripped of white space when one is
  supplied, and the old value when null is supplied.  The response echoes the row.
\<close>

theorem addons_always_premium_if_supplied:
  assumes found: "first_customer_info store (ciu_customer_name d) = Some old"
    and req: "ur_customer_info req = Some d"
    and run: "post_updatecustomerinfo engine_accepts clk req store = (Inr resp, store')"
  shows "\<exists>new. first_customer_info store' (ciu_customer_name d) = Some new \<and>
           ci_addons_with_amount new = ciu_addons_with_amount d \<and>
           ci_final_premium_amount new =
             (case ciu_final_premium_amount d of
                None \<Rightarrow> ci_final_premium_amount old
              | Some v \<Rightarrow> Some (strip v)) \<and>
           upd_customer_info resp = Some (echo_info new)"
proof -
  let ?new = "upsert_info_row (Some old) d"
  have "first_customer_info store' (ciu_customer_name d) = Some ?new"
    using update_customer_info_Inr(1) [OF req run] found by simp
  moreover have "upd_customer_info resp = Some (echo_info ?new)"
    using update_customer_info_Inr(2) [OF req run] found by simp
  moreover have "ci_addons_with_amount ?new = ciu_addons_with_amount d"
    by (simp add: upsert_info_row_def Let_def split: option.splits)
  moreover have "ci_final_premium_amount ?new =
      (case ciu_final_premium_amount d of None \<Rightarrow> ci_final_premium_amount old
       | Some v \<Rightarrow> Some (strip v))"
    by (simp add: upsert_info_row_def Let_def split: option.splits)
  ultimately show ?thesis
    by (intro exI [of _ ?new]) simp
qed

theorem addons_always_premium_if_supplied_witness:
  "\<exists>resp store'.
     first_customer_info example_store (lit ''Diya'') =
       Some \<lparr>ci_customer_name = lit ''Diya'',
             ci_final_premium_amount = Some (lit ''15,000''),
             ci_addons_with_amount = Some (lit ''Consumables Coverage: 1,500'')\<rparr> \<and>
     post_updatecustomerinfo (\<lambda>t. True) example_clock
       \<lparr>ur_customer_info =
          Some \<lparr>ciu_customer_name = lit ''Diya'',
                ciu_final_premium_amount = Some (lit '' 16,500 ''),
                ciu_addons_with_amount = None\<rparr>,
        ur_customer_policy = None\<rparr> example_store = (Inr resp, store') \<and>
     (\<exists>new. first_customer_info store' (lit ''Diya'') = Some new \<and>
        ci_addons_with_amount new = None \<and>
        ci_final_premium_amount new = Some (strip (lit '' 16,500 '')) \<and>
        upd_customer_info resp = Some (echo_info new))"
proof -
  let ?d = "\<lparr>ciu_customer_name = lit ''Diya'',
                ciu_final_premium_amount = Some (lit '' 16,500 ''),
                ciu_addons_with_amount = None\<rparr>"
  let ?req = "\<lparr>ur_customer_info = Some ?d, ur_customer_policy = None\<rparr>"
  let ?old = "\<lparr>ci_customer_name = lit ''Diya'',
             ci_final_premium_amount = Some (lit ''15,000''),
             ci_addons_with_amount = Some (lit ''Consumables Coverage: 1,500'')\<rparr>"
  have found: "first_customer_info example_store (ciu_customer_name ?d) = Some ?old"
    by (simp add: first_customer_info_def example_store_def)
  have req: "ur_customer_info ?req = Some ?d" by simp
  obtain res store' where run0:
    "post_updatecustomerinfo (\<lambda>t. True) example_clock ?req example_store = (res, store')"
    by (cases "post_updatecustomerinfo (\<lambda>t. True) example_clock ?req example_store")
  have "\<exists>resp. res = Inr resp"
    using run0
    by (auto simp: post_updatecustomerinfo_def update_customer_info_def
        process_customer_info_def update_policy_part_def db_commit_def Let_def
        split: prod.splits option.splits)
  then obtain resp where res: "res = Inr resp" ..
  have run: "post_updatecustomerinfo (\<lambda>t. True) example_clock ?req example_store = (Inr resp, store')"
    using run0 res by simp
  from addons_always_premium_if_supplied [OF found req run] found run show ?thesis by simp
qed

text \<open>
  Claim C10.  A \<open>customer_info\<close> sub-payload whose \<open>final_premium_amount\<close> is the
  empty string: when no summary record exists the new record stores null, and when one
  exists its \<open>final_premium_amount\<close> becomes the empty string.
\<close>

theorem empty_premium_create_null_update_empty:
  assumes req: "ur_customer_info req = Some d"
    and empty: "ciu_final_premium_amount d = Some []"
    and run: "post_updatecustomerinfo engine_accepts clk req store = (Inr resp, store')"
  shows "\<exists>new. first_customer_info store' (ciu_customer_name d) = Some new \<and>
           ci_final_premium_amount new =
             (case first_customer_info store (ciu_customer_name d) of
                None \<Rightarrow> None
              | Some old \<Rightarrow> Some [])"
proof -
  let ?new = "upsert_info_row (first_customer_info store (ciu_customer_name d)) d"
  have "first_customer_info store' (ciu_customer_name d) = Some ?new"
    by (rule update_customer_info_Inr(1) [OF req run])
  moreover have "ci_final_premium_amount ?new =
      (case first_customer_info store (ciu_customer_name d) of
         None \<Rightarrow> None | Some old \<Rightarrow> Some [])"
    using empty by (simp add: upsert_info_row_def Let_def strip_Nil split: option.splits)
  ultimately show ?thesis
    by (intro exI [of _ ?new]) simp
qed

theorem empty_premium_create_null_update_empty_witness:
  "(\<exists>resp store'.
      post_updatecustomerinfo (\<lambda>t. True) example_clock
        \<lparr>ur_customer_info =
           Some \<lparr>ciu_customer_name = lit ''Diya'', ciu_final_premium_amount = Some [],
                 ciu_addons_with_amount = None\<rparr>,
         ur_customer_policy = None\<rparr> example_store = (Inr resp, store') \<and>
      (\<exists>new. first_customer_info store' (lit ''Diya'') = Some new \<and>
         ci_final_premium_amount new = Some [])) \<and>
   (\<exists>resp store'.
      post_updatecustomerinfo (\<lambda>t. True) example_clock
        \<lparr>ur_customer_info =
           Some \<lparr>ciu_customer_name = lit ''Asha'', ciu_final_premium_amount = Some [],
                 ciu_addons_with_amount = None\<rparr>,
         ur_customer_policy = None\<rparr> example_store = (Inr resp, store') \<and>
      (\<exists>new. first_customer_info store' (lit ''Asha'') = Some new \<and>
         ci_final_premium_amount new = None))"
proof -
  let ?d1 = "\<lparr>ciu_customer_name = lit ''Diya'', ciu_final_premium_amount = Some [],
              ciu_addons_with_amount = None\<rparr>"
  let ?d2 = "\<lparr>ciu_customer_name = lit ''Asha'', ciu_final_premium_amount = Some [],
              ciu_addons_with_amount = None\<rparr>"
  let ?r1 = "\<lparr>ur_customer_info = Some ?d1, ur_customer_policy = None\<rparr>"
  let ?r2 = "\<lparr>ur_customer_info = Some ?d2, ur_customer_policy = None\<rparr>"
  have f1: "first_customer_info example_store (ciu_customer_name ?d1) \<noteq> None"
    by (simp add: first_customer_info_def example_store_def)
  have f2: "first_customer_info example_store (ciu_customer_name ?d2) = None"
    by (simp add: first_customer_info_def example_store_def lit_def)
  obtain res1 s1 where run1:
    "post_updatecustomerinfo (\<lambda>t. True) example_clock ?r1 example_store = (res1, s1)"
    by (cases "post_updatecustomerinfo (\<lambda>t. True) example_clock ?r1 example_store")
  have "\<exists>resp. res1 = Inr resp"
    using run1
    by (auto simp: post_updatecustomerinfo_def update_customer_info_def
        process_customer_info_def update_policy_part_def db_commit_def Let_def
        split: prod.splits option.splits)
  then obtain resp1 where run1':
    "post_updatecustomerinfo (\<lambda>t. True) example_clock ?r1 example_store = (Inr resp1, s1)"
    using run1 by auto
  obtain res2 s2 where run2:
    "post_updatecustomerinfo (\<lambda>t. True) example_clock ?r2 example_store = (res2, s2)"
    by (cases "post_updatecustomerinfo (\<lambda>t. True) example_clock ?r2 example_store")
  have "\<exists>resp. res2 = Inr resp"
    using run2
    by (auto simp: post_updatecustomerinfo_def update_customer_info_def
        process_customer_info_def update_policy_part_def db_commit_def Let_def
        split: prod.splits option.splits)
  then obtain resp2 where run2':
    "post_updatecustomerinfo (\<lambda>t. True) example_clock ?r2 example_store = (Inr resp2, s2)"
    using run2 by auto
  have c1: "\<exists>new. first_customer_info s1 (lit ''Diya'') = Some new \<and>
              ci_final_premium_amount new = Some []"
    using empty_premium_create_null_update_empty [of ?r1 ?d1, OF _ _ run1'] f1
    by (auto split: option.splits)
  have c2: "\<exists>new. first_customer_info s2 (lit ''Asha'') = Some new \<and>
              ci_final_premium_amount new = None"
    using empty_premium_create_null_update_empty [of ?r2 ?d2, OF _ _ run2'] f2
    by simp
  show ?thesis using run1' run2' c1 c2 by blast
qed

section \<open>The update endpoint: the policy record\<close>

lemma getattr_setattr:
  "g \<noteq> F_customer_name \<Longrightarrow>
   getattr_policy (setattr_policy r g v) f = (if f = g then Some v else getattr_policy r f)"
  by (cases g; cases f; simp)

lemma setattr_frame:
  "g \<noteq> F_customer_name \<Longrightarrow> cp_customer_name (setattr_policy r g v) = cp_customer_name r"
  "cp_customer_since (setattr_policy r g v) = cp_customer_since r"
  "cp_last_policy_renewal (setattr_policy r g v) = cp_last_policy_renewal r"
  "cp_created_at (setattr_policy r g v) = cp_created_at r"
  by (cases g; simp)+

lemma apply_fields_frame:
  "cp_customer_name (apply_fields kvs r) = cp_customer_name r"
  "cp_customer_since (apply_fields kvs r) = cp_customer_since r"
  "cp_last_policy_renewal (apply_fields kvs r) = cp_last_policy_renewal r"
  "cp_created_at (apply_fields kvs r) = cp_created_at r"
  by (induction kvs r rule: apply_fields.induct; simp add: setattr_frame split: option.splits)+

lemma apply_fields_getattr:
  "distinct (map fst kvs) \<Longrightarrow> f \<noteq> F_customer_name \<Longrightarrow>
   getattr_policy (apply_fields kvs r) f =
     (case map_of kvs f of Some (Some v) \<Rightarrow> Some v | _ \<Rightarrow> getattr_policy r f)"
proof (induction kvs r rule: apply_fields.induct)
  case (1 r)
  then show ?case by simp
next
  case (2 field "value" rest r)
  have nf: "map_of rest field = None"
    using "2.prems"(1) by (simp add: map_of_eq_None_iff)
  show ?case
  proof (cases "value")
    case None
    with 2 nf show ?thesis by (auto split: option.splits)
  next
    case (Some v)
    with 2 nf show ?thesis
      by (auto simp: getattr_setattr split: option.splits)
  qed
qed

lemma distinct_fields: "distinct (F_customer_name # updatable_fields)"
  by (simp add: updatable_fields_def)

lemma dict_exclude_unset_distinct: "distinct (map fst (dict_exclude_unset p))"
proof -
  have "map fst (dict_exclude_unset p) =
      filter (\<lambda>f. payload_field p f \<noteq> Unset) (F_customer_name # updatable_fields)"
    unfolding dict_exclude_unset_def by (simp add: comp_def)
  then show ?thesis using distinct_fields by (simp only: distinct_filter)
qed

lemma map_of_dict_exclude_unset:
  "f \<in> set updatable_fields \<Longrightarrow>
   map_of (dict_exclude_unset p) f =
     (if payload_field p f = Unset then None else Some (attr (payload_field p f)))"
proof -
  assume f: "f \<in> set updatable_fields"
  have gen: "map_of (map (\<lambda>f. (f, h f)) (filter P xs)) f =
      (if f \<in> set xs \<and> P f then Some (h f) else None)" for h :: "policy_field \<Rightarrow> pystr option"
      and P xs
    by (induction xs) auto
  show ?thesis
    unfolding dict_exclude_unset_def gen using f by simp
qed

lemma updatable_not_name: "f \<in> set updatable_fields \<Longrightarrow> f \<noteq> F_customer_name"
  by (auto simp: updatable_fields_def)

lemma upsert_existing_getattr:
  assumes "f \<in> set updatable_fields"
  shows "getattr_policy (upsert_policy_row clk (Some old) d) f =
     (case payload_field d f of Value v \<Rightarrow> Some v | _ \<Rightarrow> getattr_policy old f)"
proof -
  have nn: "f \<noteq> F_customer_name" using assms by (rule updatable_not_name)
  have upd: "getattr_policy (r\<lparr>cp_updated_at := u\<rparr>) f = getattr_policy r f" for r u
    by (cases f) simp_all
  show ?thesis
    unfolding upsert_policy_row_def option.case upd
      apply_fields_getattr [OF dict_exclude_unset_distinct nn]
      map_of_dict_exclude_unset [OF assms]
    by (cases "payload_field d f") simp_all
qed

lemma upsert_new_getattr:
  "f \<in> set updatable_fields \<Longrightarrow>
   getattr_policy (upsert_policy_row clk None d) f = attr (payload_field d f)"
  by (cases f) (simp_all add: upsert_policy_row_def updatable_fields_def)

lemma find_append_old: "find P xs = Some x \<Longrightarrow> find P (xs @ ys) = Some x"
  by (induction xs) (auto split: if_splits)

lemma first_policy_add:
  "first_customer_policy t (cp_customer_name r) = None \<Longrightarrow>
   first_customer_policy (add_customer_policy r t) (cp_customer_name r) = Some r"
  by (simp add: first_customer_policy_def add_customer_policy_def find_append_new)

lemma first_policy_store:
  "first_customer_policy t (cp_customer_name r) = Some old \<Longrightarrow>
   first_customer_policy (store_customer_policy r t) (cp_customer_name r) = Some r"
  unfolding first_customer_policy_def store_customer_policy_def
  by (simp add: find_replace_same [where key = cp_customer_name])

lemma first_policy_cong:
  "customer_policies t = customer_policies t' \<Longrightarrow>
   first_customer_policy t n = first_customer_policy t' n"
  by (simp add: first_customer_policy_def)

lemma upsert_policy_row_name:
  assumes "\<And>old. found = Some old \<Longrightarrow> cp_customer_name old = cpu_customer_name d"
  shows "cp_customer_name (upsert_policy_row clk found d) = cpu_customer_name d"
proof (cases found)
  case None
  then show ?thesis by (simp add: upsert_policy_row_def)
next
  case (Some old)
  then show ?thesis using assms [OF Some]
    by (simp add: upsert_policy_row_def apply_fields_frame)
qed

lemma upsert_policy_row_updated_at:
  "cp_updated_at (upsert_policy_row clk found d) \<noteq> None"
  by (cases found) (simp_all add: upsert_policy_row_def)

lemma process_customer_policy_Some:
  assumes "process_customer_policy engine_accepts clk d db = (Some e, db')"
  shows "Some e = echo_policy
           (upsert_policy_row clk (first_customer_policy (pending db) (cpu_customer_name d)) d)"
    and "pending db' = committed db'"
    and "committed db' =
          (if first_customer_policy (pending db) (cpu_customer_name d) = None
           then add_customer_policy (upsert_policy_row clk None d) (pending db)
           else store_customer_policy
                  (upsert_policy_row clk
                     (first_customer_policy (pending db) (cpu_customer_name d)) d)
                  (pending db))"
  using assms
  by (auto simp: process_customer_policy_def Let_def db_commit_def split: if_splits)

lemma process_customer_info_policies:
  "process_customer_info engine_accepts d db = (r, db') \<Longrightarrow>
   pending db = committed db \<Longrightarrow>
   customer_policies (committed db') = customer_policies (committed db)"
  by (auto simp: process_customer_info_def Let_def db_commit_def add_customer_info_def
      store_customer_info_def split: if_splits)


lemma echo_policy_None: "echo_policy r = None \<longleftrightarrow> cp_updated_at r = None"
  by (simp add: echo_policy_def split: option.splits)

lemma process_customer_policy_None:
  assumes "process_customer_policy engine_accepts clk d db = (None, db')"
  shows "committed db' = committed db"
proof -
  let ?row = "upsert_policy_row clk (first_customer_policy (pending db) (cpu_customer_name d)) d"
  have "echo_policy ?row \<noteq> None"
    by (simp add: echo_policy_None upsert_policy_row_updated_at)
  then show ?thesis using assms
    by (auto simp: process_customer_policy_def Let_def db_commit_def split: if_splits)
qed

lemma process_customer_info_None:
  "process_customer_info engine_accepts d db = (None, db') \<Longrightarrow> committed db' = committed db"
  by (auto simp: process_customer_info_def Let_def db_commit_def split: if_splits)

text \<open>Every run of the handler on a fresh session either stops before the policy part,
  leaving the policy table as it was, or reaches it on a clean session with that table
  untouched.\<close>

lemma update_customer_info_reaches:
  assumes "update_customer_info engine_accepts clk req (get_db store) = (res, db')"
  shows "(res = Inl InternalServerError \<and> customer_policies (committed db') = customer_policies store)
       \<or> (\<exists>info dbm. update_policy_part engine_accepts clk req info dbm = (res, db') \<and>
              pending dbm = committed dbm \<and>
              customer_policies (committed dbm) = customer_policies store)"
proof (cases "ur_customer_info req")
  case None
  with assms have "update_policy_part engine_accepts clk req None (get_db store) = (res, db')"
    by (simp add: update_customer_info_def)
  moreover have "pending (get_db store) = committed (get_db store)"
    and "customer_policies (committed (get_db store)) = customer_policies store"
    by (simp_all add: get_db_def)
  ultimately show ?thesis by blast
next
  case (Some di)
  obtain r1 db1 where p1: "process_customer_info engine_accepts di (get_db store) = (r1, db1)"
    by (cases "process_customer_info engine_accepts di (get_db store)")
  have fresh: "pending (get_db store) = committed (get_db store)"
    by (simp add: get_db_def)
  have pol: "customer_policies (committed db1) = customer_policies store"
    using process_customer_info_policies [OF p1 fresh] by (simp add: get_db_def)
  show ?thesis
  proof (cases r1)
    case None
    with assms Some p1 have "res = Inl InternalServerError" and "db' = db_rollback db1"
      by (simp_all add: update_customer_info_def)
    then show ?thesis using pol by (simp add: db_rollback_def)
  next
    case (Some e)
    with assms \<open>ur_customer_info req = Some di\<close> p1
    have "update_policy_part engine_accepts clk req (Some e) db1 = (res, db')"
      by (simp add: update_customer_info_def)
    moreover have "pending db1 = committed db1"
      using process_customer_info_Some(2) p1 Some by blast
    ultimately show ?thesis using pol by blast
  qed
qed

lemma update_customer_policy_Inr:
  assumes req: "ur_customer_policy req = Some d"
    and run: "post_updatecustomerinfo engine_accepts clk req store = (Inr resp, store')"
  shows "first_customer_policy store' (cpu_customer_name d) =
           Some (upsert_policy_row clk (first_customer_policy store (cpu_customer_name d)) d)"
    and "upd_customer_policy resp =
           echo_policy (upsert_policy_row clk (first_customer_policy store (cpu_customer_name d)) d)"
proof -
  let ?found = "first_customer_policy store (cpu_customer_name d)"
  let ?new = "upsert_policy_row clk ?found d"
  obtain res0 db' where h0: "update_customer_info engine_accepts clk req (get_db store) = (res0, db')"
    by (cases "update_customer_info engine_accepts clk req (get_db store)")
  with run have res0: "res0 = Inr resp" and st: "store' = committed db'"
    by (simp_all add: post_updatecustomerinfo_def)
  from update_customer_info_reaches [OF h0] res0 obtain info dbm where
    part: "update_policy_part engine_accepts clk req info dbm = (Inr resp, db')" and
    clean: "pending dbm = committed dbm" and
    pol: "customer_policies (committed dbm) = customer_policies store"
    by auto
  obtain r2 db2 where p2: "process_customer_policy engine_accepts clk d dbm = (r2, db2)"
    by (cases "process_customer_policy engine_accepts clk d dbm")
  have h2: "(case r2 of None \<Rightarrow> (Inl InternalServerError, db_rollback db2)
             | Some e \<Rightarrow> (Inr \<lparr>upd_customer_info = info, upd_customer_policy = Some e,
                     upd_timestamp = isoformat_datetime (now clk)\<rparr>, db2))
            = (Inr resp, db')"
    using part req p2 by (simp add: update_policy_part_def)
  then obtain e where r2: "r2 = Some e" by (cases r2) simp_all
  have db2: "db2 = db'" and echo: "upd_customer_policy resp = Some e"
    using h2 r2 by auto
  have found: "first_customer_policy (pending dbm) (cpu_customer_name d) = ?found"
    by (rule first_policy_cong) (simp add: clean pol)
  note facts = process_customer_policy_Some [OF p2 [unfolded r2], unfolded found]
  have name: "cp_customer_name ?new = cpu_customer_name d"
  proof (rule upsert_policy_row_name)
    fix old assume "?found = Some old"
    then show "cp_customer_name old = cpu_customer_name d"
      unfolding first_customer_policy_def by (rule find_Some_key)
  qed
  have found_p: "first_customer_policy (pending dbm) (cp_customer_name ?new) = ?found"
    unfolding name by (rule found)
  have "first_customer_policy (committed db2) (cp_customer_name ?new) = Some ?new"
  proof (cases ?found)
    case None
    then have "committed db2 = add_customer_policy ?new (pending dbm)" using facts(3) by simp
    moreover have "first_customer_policy (add_customer_policy ?new (pending dbm))
        (cp_customer_name ?new) = Some ?new"
    proof (rule first_policy_add)
      show "first_customer_policy (pending dbm) (cp_customer_name ?new) = None"
        unfolding found_p by (rule None)
    qed
    ultimately show ?thesis by simp
  next
    case (Some old)
    then have "committed db2 = store_customer_policy ?new (pending dbm)" using facts(3) by simp
    moreover have "first_customer_policy (store_customer_policy ?new (pending dbm))
        (cp_customer_name ?new) = Some ?new"
    proof (rule first_policy_store)
      show "first_customer_policy (pending dbm) (cp_customer_name ?new) = Some old"
        unfolding found_p by (rule Some)
    qed
    ultimately show ?thesis by simp
  qed
  then show "first_customer_policy store' (cpu_customer_name d) = Some ?new"
    by (simp add: name st db2)
  show "upd_customer_policy resp = echo_policy ?new"
    using echo facts(1) by simp
qed

lemma process_customer_info_accepted:
  "(\<And>t. engine_accepts t) \<Longrightarrow>
   \<exists>e db'. process_customer_info engine_accepts d db = (Some e, db')"
  by (simp add: process_customer_info_def Let_def db_commit_def)

lemma process_customer_policy_accepted:
  assumes "\<And>t. engine_accepts t"
  shows "\<exists>e db'. process_customer_policy engine_accepts clk d db = (Some e, db')"
proof -
  let ?row = "upsert_policy_row clk (first_customer_policy (pending db) (cpu_customer_name d)) d"
  have "echo_policy ?row \<noteq> None"
    by (simp add: echo_policy_None upsert_policy_row_updated_at)
  then obtain e where "echo_policy ?row = Some e" by auto
  then show ?thesis using assms
    by (simp add: process_customer_policy_def Let_def db_commit_def)
qed

lemma update_policy_part_accepted:
  assumes "\<And>t. engine_accepts t"
    and "info \<noteq> None \<or> ur_customer_policy req \<noteq> None"
  shows "\<exists>resp db'. update_policy_part engine_accepts clk req info db = (Inr resp, db')"
proof (cases "ur_customer_policy req")
  case None
  with assms(2) show ?thesis by (simp add: update_policy_part_def)
next
  case (Some d)
  from process_customer_policy_accepted [of engine_accepts clk d db, OF assms(1)]
  obtain e db' where "process_customer_policy engine_accepts clk d db = (Some e, db')"
    by blast
  with Some show ?thesis by (simp add: update_policy_part_def)
qed

lemma post_updatecustomerinfo_accepted:
  assumes acc: "\<And>t. engine_accepts t"
    and some: "ur_customer_info req \<noteq> None \<or> ur_customer_policy req \<noteq> None"
  shows "\<exists>resp store'. post_updatecustomerinfo engine_accepts clk req store = (Inr resp, store')"
proof -
  have "\<exists>resp db'. update_customer_info engine_accepts clk req (get_db store) = (Inr resp, db')"
  proof (cases "ur_customer_info req")
    case None
    with some have "ur_customer_policy req \<noteq> None" by simp
    then show ?thesis
      using update_policy_part_accepted [of engine_accepts None req clk "get_db store", OF acc] None
      by (simp add: update_customer_info_def)
  next
    case (Some di)
    from process_customer_info_accepted [of engine_accepts di "get_db store", OF acc]
    obtain e db1 where p: "process_customer_info engine_accepts di (get_db store) = (Some e, db1)"
      by blast
    from update_policy_part_accepted [of engine_accepts "Some e" req clk db1, OF acc]
    show ?thesis using Some p by (simp add: update_customer_info_def)
  qed
  then show ?thesis by (auto simp: post_updatecustomerinfo_def)
qed

text \<open>
  Claim C1.  When the \<open>customer_policy\<close> sub-payload names a customer whose policy
  record exists and the request succeeds, every updatable field (every field of the
  payload other than \<open>customer_name\<close>) is stored as follows: a field the payload
  omits or supplies as null keeps its stored value, and a field supplied with a string
  is stored as that string.
\<close>

theorem partial_update_of_existing_policy:
  assumes found: "first_customer_policy store (cpu_customer_name d) = Some old"
    and req: "ur_customer_policy req = Some d"
    and run: "post_updatecustomerinfo engine_accepts clk req store = (Inr resp, store')"
    and f: "f \<in> set updatable_fields"
  shows "\<exists>new. first_customer_policy store' (cpu_customer_name d) = Some new \<and>
           getattr_policy new f =
             (case payload_field d f of
                Unset \<Rightarrow> getattr_policy old f
              | Null \<Rightarrow> getattr_policy old f
              | Value v \<Rightarrow> Some v)"
proof -
  let ?new = "upsert_policy_row clk (Some old) d"
  have "first_customer_policy store' (cpu_customer_name d) = Some ?new"
    using update_customer_policy_Inr(1) [OF req run] found by simp
  moreover have "getattr_policy ?new f =
      (case payload_field d f of Unset \<Rightarrow> getattr_policy old f
       | Null \<Rightarrow> getattr_policy old f | Value v \<Rightarrow> Some v)"
    unfolding upsert_existing_getattr [OF f] by (cases "payload_field d f") simp_all
  ultimately show ?thesis by (intro exI [of _ ?new]) simp
qed

theorem partial_update_of_existing_policy_witness:
  "\<exists>resp store'.
     post_updatecustomerinfo (\<lambda>t. True) example_clock
       \<lparr>ur_customer_info = None, ur_customer_policy = Some example_policy_update\<rparr>
       example_store = (Inr resp, store') \<and>
     (\<exists>new. first_customer_policy store' (lit ''Diya'') = Some new \<and>
        cp_vehicle_insurance new = Some (lit ''Car, Bike'')) \<and>
     (\<exists>new. first_customer_policy store' (lit ''Diya'') = Some new \<and>
        cp_medical_insurance new = Some (lit ''Family'')) \<and>
     (\<exists>new. first_customer_policy store' (lit ''Diya'') = Some new \<and>
        cp_location new = Some (lit ''Chennai''))"
proof -
  let ?req = "\<lparr>ur_customer_info = None, ur_customer_policy = Some example_policy_update\<rparr>"
  have name: "cpu_customer_name example_policy_update = lit ''Diya''"
    by (simp add: example_policy_update_def unset_policy_update_def)
  have found: "first_customer_policy example_store (cpu_customer_name example_policy_update)
      = Some example_policy"
    by (simp add: name first_customer_policy_def example_store_def example_policy_def)
  have req: "ur_customer_policy ?req = Some example_policy_update" by simp
  obtain resp store' where run:
    "post_updatecustomerinfo (\<lambda>t. True) example_clock ?req example_store = (Inr resp, store')"
    using post_updatecustomerinfo_accepted [of "\<lambda>t. True" ?req example_clock example_store]
    by auto
  have f1: "F_vehicle_insurance \<in> set updatable_fields"
    and f2: "F_medical_insurance \<in> set updatable_fields"
    and f3: "F_location \<in> set updatable_fields"
    by (simp_all add: updatable_fields_def)
  have c1: "\<exists>new. first_customer_policy store' (lit ''Diya'') = Some new \<and>
        cp_vehicle_insurance new = Some (lit ''Car, Bike'')"
    using partial_update_of_existing_policy [OF found req run f1]
    by (simp add: name example_policy_update_def unset_policy_update_def)
  have c2: "\<exists>new. first_customer_policy store' (lit ''Diya'') = Some new \<and>
        cp_medical_insurance new = Some (lit ''Family'')"
    using partial_update_of_existing_policy [OF found req run f2]
    by (simp add: name example_policy_update_def unset_policy_update_def example_policy_def)
  have c3: "\<exists>new. first_customer_policy store' (lit ''Diya'') = Some new \<and>
        cp_location new = Some (lit ''Chennai'')"
    using partial_update_of_existing_policy [OF found req run f3]
    by (simp add: name example_policy_update_def unset_policy_update_def example_policy_def)
  show ?thesis using run c1 c2 c3 by blast
qed


text \<open>
  Claim C7.  When the \<open>customer_policy\<close> sub-payload names a customer with no policy
  record and the request succeeds, a record is inserted whose \<open>customer_since\<close> is
  the current (UTC) date, whose \<open>last_policy_renewal\<close> is null, and whose updatable
  fields are the supplied strings, null where the payload omits the field or supplies
  null.  The response echoes the inserted record, \<open>customer_since\<close> rendered by
  \<open>isoformat\<close>.
\<close>

theorem new_policy_defaults_and_customer_since:
  assumes absent: "first_customer_policy store (cpu_customer_name d) = None"
    and req: "ur_customer_policy req = Some d"
    and run: "post_updatecustomerinfo engine_accepts clk req store = (Inr resp, store')"
  shows "\<exists>new e. first_customer_policy store' (cpu_customer_name d) = Some new \<and>
           cp_customer_since new = dt_date (utcnow clk) \<and>
           cp_last_policy_renewal new = None \<and>
           (\<forall>f \<in> set updatable_fields.
              getattr_policy new f =
                (case payload_field d f of Unset \<Rightarrow> None | Null \<Rightarrow> None | Value v \<Rightarrow> Some v)) \<and>
           upd_customer_policy resp = Some e \<and> echo_policy new = Some e \<and>
           pe_customer_since e = isoformat_date (dt_date (utcnow clk))"
proof -
  let ?new = "upsert_policy_row clk None d"
  have look: "first_customer_policy store' (cpu_customer_name d) = Some ?new"
    using update_customer_policy_Inr(1) [OF req run] absent by simp
  have echo: "upd_customer_policy resp = echo_policy ?new"
    using update_customer_policy_Inr(2) [OF req run] absent by simp
  have "echo_policy ?new \<noteq> None"
    by (simp add: echo_policy_None upsert_policy_row_updated_at)
  then obtain e where e: "echo_policy ?new = Some e" by auto
  have since: "cp_customer_since ?new = dt_date (utcnow clk)"
    and renewal: "cp_last_policy_renewal ?new = None"
    by (simp_all add: upsert_policy_row_def)
  have pe: "pe_customer_since e = isoformat_date (dt_date (utcnow clk))"
    using e since by (auto simp: echo_policy_def split: option.splits)
  have fields: "\<forall>f \<in> set updatable_fields. getattr_policy ?new f =
      (case payload_field d f of Unset \<Rightarrow> None | Null \<Rightarrow> None | Value v \<Rightarrow> Some v)"
  proof
    fix f assume f: "f \<in> set updatable_fields"
    show "getattr_policy ?new f =
      (case payload_field d f of Unset \<Rightarrow> None | Null \<Rightarrow> None | Value v \<Rightarrow> Some v)"
      unfolding upsert_new_getattr [OF f] by (cases "payload_field d f") simp_all
  qed
  show ?thesis
    using look echo e since renewal pe fields
    by (intro exI [of _ ?new] exI [of _ e]) simp
qed


theorem new_policy_defaults_and_customer_since_witness:
  "\<exists>resp store' new e.
     first_customer_policy example_store (lit ''Asha'') = None \<and>
     post_updatecustomerinfo (\<lambda>t. True) example_clock
       \<lparr>ur_customer_info = None, ur_customer_policy = Some example_policy_create\<rparr>
       example_store = (Inr resp, store') \<and>
     first_customer_policy store' (lit ''Asha'') = Some new \<and>
     cp_customer_since new = \<lparr>year = 2025, month = 3, day = 9\<rparr> \<and>
     cp_last_policy_renewal new = None \<and>
     cp_age new = Some (lit ''31-35'') \<and> cp_location new = None \<and>
     cp_vehicle_insurance new = None \<and>
     upd_customer_policy resp = Some e \<and>
     pe_customer_since e = lit ''2025-03-09''"
proof -
  let ?req = "\<lparr>ur_customer_info = None, ur_customer_policy = Some example_policy_create\<rparr>"
  have name: "cpu_customer_name example_policy_create = lit ''Asha''"
    by (simp add: example_policy_create_def unset_policy_update_def)
  have absent: "first_customer_policy example_store (cpu_customer_name example_policy_create)
      = None"
    by (simp add: name first_customer_policy_def example_store_def example_policy_def lit_def)
  have req: "ur_customer_policy ?req = Some example_policy_create" by simp
  obtain resp store' where run:
    "post_updatecustomerinfo (\<lambda>t. True) example_clock ?req example_store = (Inr resp, store')"
    using post_updatecustomerinfo_accepted [of "\<lambda>t. True" ?req example_clock example_store]
    by auto
  have today: "dt_date (utcnow example_clock) = \<lparr>year = 2025, month = 3, day = 9\<rparr>"
    by (simp add: example_clock_def)
  have iso: "isoformat_date \<lparr>year = 2025, month = 3, day = 9\<rparr> = lit ''2025-03-09''"
    by (simp add: isoformat_date_def zfill_def lit_def)
  from new_policy_defaults_and_customer_since [OF absent req run] obtain new e where
    a: "first_customer_policy store' (lit ''Asha'') = Some new" and
    b: "cp_customer_since new = \<lparr>year = 2025, month = 3, day = 9\<rparr>" and
    c: "cp_last_policy_renewal new = None" and
    d: "\<forall>f \<in> set updatable_fields. getattr_policy new f =
          (case payload_field example_policy_create f of
             Unset \<Rightarrow> None | Null \<Rightarrow> None | Value v \<Rightarrow> Some v)" and
    e: "upd_customer_policy resp = Some e" and
    g: "pe_customer_since e = lit ''2025-03-09''"
    unfolding name today iso by blast
  have "getattr_policy new F_age = Some (lit ''31-35'')"
    and "getattr_policy new F_location = None"
    and "getattr_policy new F_vehicle_insurance = None"
    using d by (simp_all add: updatable_fields_def example_policy_create_def unset_policy_update_def)
  then have h: "cp_age new = Some (lit ''31-35'')" "cp_location new = None"
    "cp_vehicle_insurance new = None"
    by simp_all
  show ?thesis using absent [unfolded name] run a b c h e g by blast
qed

lemma customer_policies_after:
  assumes run: "post_updatecustomerinfo engine_accepts clk req store = (res, store')"
  shows "customer_policies store' = customer_policies store \<or>
         (\<exists>d. ur_customer_policy req = Some d \<and>
            (case first_customer_policy store (cpu_customer_name d) of
               None \<Rightarrow>
                 customer_policies store' =
                   customer_policies store @ [upsert_policy_row clk None d]
             | Some old \<Rightarrow>
                 customer_policies store' =
                   map (\<lambda>x. if cp_customer_name x = cpu_customer_name d
                            then upsert_policy_row clk (Some old) d else x)
                     (customer_policies store)))"
proof -
  obtain res0 db' where h0: "update_customer_info engine_accepts clk req (get_db store) = (res0, db')"
    by (cases "update_customer_info engine_accepts clk req (get_db store)")
  with run have st: "store' = committed db'"
    by (simp_all add: post_updatecustomerinfo_def)
  from update_customer_info_reaches [OF h0]
  show ?thesis
  proof
    assume "res0 = Inl InternalServerError \<and>
      customer_policies (committed db') = customer_policies store"
    then show ?thesis by (simp add: st)
  next
    assume "\<exists>info dbm. update_policy_part engine_accepts clk req info dbm = (res0, db') \<and>
              pending dbm = committed dbm \<and>
              customer_policies (committed dbm) = customer_policies store"
    then obtain info dbm where
      part: "update_policy_part engine_accepts clk req info dbm = (res0, db')" and
      clean: "pending dbm = committed dbm" and
      pol: "customer_policies (committed dbm) = customer_policies store"
      by blast
    show ?thesis
    proof (cases "ur_customer_policy req")
      case None
      with part have "committed db' = committed dbm"
        by (auto simp: update_policy_part_def db_rollback_def split: if_splits)
      then show ?thesis using pol by (simp add: st)
    next
      case (Some d)
      let ?found = "first_customer_policy store (cpu_customer_name d)"
      let ?new = "upsert_policy_row clk ?found d"
      obtain r2 db2 where p2: "process_customer_policy engine_accepts clk d dbm = (r2, db2)"
        by (cases "process_customer_policy engine_accepts clk d dbm")
      have found: "first_customer_policy (pending dbm) (cpu_customer_name d) = ?found"
        by (rule first_policy_cong) (simp add: clean pol)
      have name: "cp_customer_name ?new = cpu_customer_name d"
      proof (rule upsert_policy_row_name)
        fix old assume "?found = Some old"
        then show "cp_customer_name old = cpu_customer_name d"
          unfolding first_customer_policy_def by (rule find_Some_key)
      qed
      show ?thesis
      proof (cases r2)
        case None
        have "committed db2 = committed dbm"
          by (rule process_customer_policy_None [OF p2 [unfolded None]])
        moreover have "db' = db_rollback db2"
          using part Some p2 None by (simp add: update_policy_part_def)
        ultimately show ?thesis using pol by (simp add: st db_rollback_def)
      next
        case (Some e)
        note facts = process_customer_policy_Some [OF p2 [unfolded Some], unfolded found]
        have db2: "db' = db2"
          using part \<open>ur_customer_policy req = Some d\<close> p2 Some
          by (simp add: update_policy_part_def)
        have st2: "customer_policies (committed db2) = customer_policies store'"
          by (simp add: st db2)
        have "case ?found of
               None \<Rightarrow>
                 customer_policies store' =
                   customer_policies store @ [upsert_policy_row clk None d]
             | Some old \<Rightarrow>
                 customer_policies store' =
                   map (\<lambda>x. if cp_customer_name x = cpu_customer_name d
                            then upsert_policy_row clk (Some old) d else x)
                     (customer_policies store)"
        proof (cases ?found)
          case None
          then show ?thesis using facts(3) pol clean st2
            by (simp add: add_customer_policy_def)
        next
          case (Some old)
          then show ?thesis using facts(3) pol clean name st2
            by (simp add: store_customer_policy_def)
        qed
        with \<open>ur_customer_policy req = Some d\<close> show ?thesis
          by (intro disjI2 exI [of _ d] conjI)
      qed
    qed
  qed
qed


lemma upsert_existing_frame:
  "cp_customer_since (upsert_policy_row clk (Some old) d) = cp_customer_since old"
  "cp_last_policy_renewal (upsert_policy_row clk (Some old) d) = cp_last_policy_renewal old"
  "cp_customer_name (upsert_policy_row clk (Some old) d) = cp_customer_name old"
  by (simp_all add: upsert_policy_row_def apply_fields_frame)

text \<open>
  Claim C9.  Whatever the request and however it ends, a policy record that existed
  before still exists afterwards with the same \<open>customer_since\<close> and the same
  \<open>last_policy_renewal\<close>, and a policy record the request created has
  \<open>last_policy_renewal\<close> null: the endpoint never writes a non-null renewal date.
\<close>

theorem customer_since_and_renewal_never_written:
  assumes run: "post_updatecustomerinfo engine_accepts clk req store = (res, store')"
  shows "(\<forall>n old. first_customer_policy store n = Some old \<longrightarrow>
            (\<exists>new. first_customer_policy store' n = Some new \<and>
               cp_customer_since new = cp_customer_since old \<and>
               cp_last_policy_renewal new = cp_last_policy_renewal old)) \<and>
         (\<forall>n new. first_customer_policy store n = None \<longrightarrow>
            first_customer_policy store' n = Some new \<longrightarrow>
            cp_last_policy_renewal new = None)"
proof -
  let ?xs = "customer_policies store"
  let ?P = "\<lambda>n x. cp_customer_name x = n"
  from customer_policies_after [OF run]
  consider (same) "customer_policies store' = ?xs"
    | (insert) d where "ur_customer_policy req = Some d"
        "find (?P (cpu_customer_name d)) ?xs = None"
        "customer_policies store' = ?xs @ [upsert_policy_row clk None d]"
    | (update) d old0 where "ur_customer_policy req = Some d"
        "find (?P (cpu_customer_name d)) ?xs = Some old0"
        "customer_policies store' =
           map (\<lambda>x. if cp_customer_name x = cpu_customer_name d
                    then upsert_policy_row clk (Some old0) d else x) ?xs"
    by (auto simp: first_customer_policy_def split: option.splits)
  then show ?thesis
  proof cases
    case same
    then show ?thesis by (simp add: first_customer_policy_def)
  next
    case (insert d)
    let ?row = "upsert_policy_row clk None d"
    have row_name: "cp_customer_name ?row = cpu_customer_name d"
      by (simp add: upsert_policy_row_def)
    have row_renewal: "cp_last_policy_renewal ?row = None"
      by (simp add: upsert_policy_row_def)
    have keep: "find (?P n) (?xs @ [?row]) = Some old" if "find (?P n) ?xs = Some old" for n old
      using that by (rule find_append_old)
    have fresh: "cp_last_policy_renewal new = None"
      if none: "find (?P n) ?xs = None" and some: "find (?P n) (?xs @ [?row]) = Some new"
      for n new
    proof (cases "cp_customer_name ?row = n")
      case True
      have "find (?P n) (?xs @ [?row]) = Some ?row"
        using none True by (rule find_append_new)
      with some have "new = ?row" by simp
      then show ?thesis by (simp only: row_renewal)
    next
      case False
      then have "find (?P n) (?xs @ [?row]) = find (?P n) ?xs"
        by (rule find_append_other)
      with none some show ?thesis by simp
    qed
    show ?thesis
      unfolding first_customer_policy_def insert(3) using keep fresh by blast
  next
    case (update d old0)
    let ?k = "cpu_customer_name d"
    let ?row = "upsert_policy_row clk (Some old0) d"
    let ?ys = "map (\<lambda>x. if cp_customer_name x = ?k then ?row else x) ?xs"
    have old0_name: "cp_customer_name old0 = ?k"
      using update(2) by (rule find_Some_key)
    have row_name: "cp_customer_name ?row = ?k"
      by (simp add: upsert_existing_frame old0_name)
    have hit: "find (?P ?k) ?ys = Some ?row"
      using update(2) row_name by (rule find_replace_same)
    have miss: "find (?P n) ?ys = find (?P n) ?xs" if "n \<noteq> ?k" for n
      using that row_name by (rule find_replace_other)
    have keep: "\<exists>new. find (?P n) ?ys = Some new \<and>
        cp_customer_since new = cp_customer_since old \<and>
        cp_last_policy_renewal new = cp_last_policy_renewal old"
      if "find (?P n) ?xs = Some old" for n old
    proof (cases "n = ?k")
      case True
      with that update(2) have "old = old0" by simp
      then show ?thesis using hit True by (simp add: upsert_existing_frame)
    next
      case False
      then show ?thesis using miss that by simp
    qed
    have fresh: "cp_last_policy_renewal new = None"
      if none: "find (?P n) ?xs = None" and some: "find (?P n) ?ys = Some new" for n new
    proof (cases "n = ?k")
      case True
      with none update(2) show ?thesis by simp
    next
      case False
      with miss none some show ?thesis by simp
    qed
    show ?thesis
      unfolding first_customer_policy_def update(3) using keep fresh by blast
  qed
qed


theorem customer_since_and_renewal_never_written_witness:
  "(\<exists>new. first_customer_policy
            (snd (post_updatecustomerinfo (\<lambda>t. True) example_clock
                    \<lparr>ur_customer_info = None, ur_customer_policy = Some example_policy_update\<rparr>
                    example_store)) (lit ''Diya'') = Some new \<and>
      cp_customer_since new = \<lparr>year = 2021, month = 6, day = 15\<rparr> \<and>
      cp_last_policy_renewal new = Some \<lparr>year = 2024, month = 11, day = 2\<rparr>) \<and>
   (\<exists>new. first_customer_policy
            (snd (post_updatecustomerinfo (\<lambda>t. True) example_clock
                    \<lparr>ur_customer_info = None, ur_customer_policy = Some example_policy_create\<rparr>
                    example_store)) (lit ''Asha'') = Some new \<and>
      cp_last_policy_renewal new = None)"
proof -
  let ?r1 = "\<lparr>ur_customer_info = None, ur_customer_policy = Some example_policy_update\<rparr>"
  let ?r2 = "\<lparr>ur_customer_info = None, ur_customer_policy = Some example_policy_create\<rparr>"
  let ?p1 = "post_updatecustomerinfo (\<lambda>t. True) example_clock ?r1 example_store"
  let ?p2 = "post_updatecustomerinfo (\<lambda>t. True) example_clock ?r2 example_store"
  have run1: "?p1 = (fst ?p1, snd ?p1)" and run2: "?p2 = (fst ?p2, snd ?p2)"
    by simp_all
  have found: "first_customer_policy example_store (lit ''Diya'') = Some example_policy"
    by (simp add: first_customer_policy_def example_store_def example_policy_def)
  have absent: "first_customer_policy example_store (lit ''Asha'') = None"
    by (simp add: first_customer_policy_def example_store_def example_policy_def lit_def)
  have name2: "cpu_customer_name example_policy_create = lit ''Asha''"
    by (simp add: example_policy_create_def unset_policy_update_def)
  obtain resp2 where "fst ?p2 = Inr resp2"
    using post_updatecustomerinfo_accepted [of "\<lambda>t. True" ?r2 example_clock example_store]
    by auto
  then have inr2: "?p2 = (Inr resp2, snd ?p2)" using run2 by simp
  have "ur_customer_policy ?r2 = Some example_policy_create" by simp
  from update_customer_policy_Inr(1) [OF this inr2]
  obtain new2 where new2: "first_customer_policy (snd ?p2) (lit ''Asha'') = Some new2"
    unfolding name2 by blast
  have c1: "\<exists>new. first_customer_policy (snd ?p1) (lit ''Diya'') = Some new \<and>
      cp_customer_since new = \<lparr>year = 2021, month = 6, day = 15\<rparr> \<and>
      cp_last_policy_renewal new = Some \<lparr>year = 2024, month = 11, day = 2\<rparr>"
  proof -
    have since: "cp_customer_since example_policy = \<lparr>year = 2021, month = 6, day = 15\<rparr>"
      and renewal: "cp_last_policy_renewal example_policy =
        Some \<lparr>year = 2024, month = 11, day = 2\<rparr>"
      by (simp_all add: example_policy_def)
    from customer_since_and_renewal_never_written [OF run1] found
    have "\<exists>new. first_customer_policy (snd ?p1) (lit ''Diya'') = Some new \<and>
      cp_customer_since new = cp_customer_since example_policy \<and>
      cp_last_policy_renewal new = cp_last_policy_renewal example_policy"
      by blast
    then show ?thesis unfolding since renewal .
  qed
  have c2: "cp_last_policy_renewal new2 = None"
    using customer_since_and_renewal_never_written [OF run2] absent new2 by blast
  show ?thesis using c1 c2 new2 by blast
qed

section \<open>The update endpoint: two commits\<close>

text \<open>
  Claim C8.  A request carries both sub-payloads.  If the storage engine accepts the
  commit of the \<open>customer_info\<close> change and refuses the commit of the
  \<open>customer_policy\<close> change, the request fails with status 500 and the store is
  left with the \<open>customer_info\<close> change and without the \<open>customer_policy\<close> change.
\<close>

theorem info_commit_survives_policy_failure:
  assumes info: "ur_customer_info req = Some di"
    and policy: "ur_customer_policy req = Some dp"
    and row: "row = upsert_info_row (first_customer_info store (ciu_customer_name di)) di"
    and t1: "t1 = (if first_customer_info store (ciu_customer_name di) = None
                   then add_customer_info row store else store_customer_info row store)"
    and prow: "prow = upsert_policy_row clk (first_customer_policy t1 (cpu_customer_name dp)) dp"
    and t2: "t2 = (if first_customer_policy t1 (cpu_customer_name dp) = None
                   then add_customer_policy prow t1 else store_customer_policy prow t1)"
    and accepted: "engine_accepts t1"
    and refused: "\<not> engine_accepts t2"
  shows "post_updatecustomerinfo engine_accepts clk req store = (Inl InternalServerError, t1) \<and>
         first_customer_info t1 (ciu_customer_name di) = Some row \<and>
         customer_policies t1 = customer_policies store"
proof -
  let ?db = "get_db store"
  let ?db1 = "\<lparr>committed = t1, pending = t1\<rparr>"
  have p1: "process_customer_info engine_accepts di ?db = (Some (echo_info row), ?db1)"
  proof (cases "first_customer_info store (ciu_customer_name di)")
    case None
    with accepted show ?thesis
      by (simp add: process_customer_info_def Let_def db_commit_def get_db_def row t1)
  next
    case (Some old)
    with accepted show ?thesis
      by (simp add: process_customer_info_def Let_def db_commit_def get_db_def row t1)
  qed
  have p2: "process_customer_policy engine_accepts clk dp ?db1 =
      (None, \<lparr>committed = t1, pending = t2\<rparr>)"
  proof (cases "first_customer_policy t1 (cpu_customer_name dp)")
    case None
    with refused show ?thesis
      by (simp add: process_customer_policy_def Let_def db_commit_def prow t2)
  next
    case (Some old)
    with refused show ?thesis
      by (simp add: process_customer_policy_def Let_def db_commit_def prow t2)
  qed
  have "update_policy_part engine_accepts clk req (Some (echo_info row)) ?db1 =
      (Inl InternalServerError, ?db1)"
    using policy p2 by (simp add: update_policy_part_def db_rollback_def)
  then have "update_customer_info engine_accepts clk req ?db = (Inl InternalServerError, ?db1)"
    using info p1 by (simp add: update_customer_info_def)
  then have run: "post_updatecustomerinfo engine_accepts clk req store =
      (Inl InternalServerError, t1)"
    by (simp add: post_updatecustomerinfo_def)
  have name: "ci_customer_name row = ciu_customer_name di"
    unfolding row
  proof (rule upsert_info_row_name)
    fix old assume "first_customer_info store (ciu_customer_name di) = Some old"
    then show "ci_customer_name old = ciu_customer_name di"
      unfolding first_customer_info_def by (rule find_Some_key)
  qed
  have look: "first_customer_info t1 (ciu_customer_name di) = Some row"
  proof (cases "first_customer_info store (ciu_customer_name di)")
    case None
    then have "first_customer_info (add_customer_info row store) (ci_customer_name row) = Some row"
      unfolding name [symmetric] by (rule first_info_add)
    then show ?thesis using None by (simp add: t1 name)
  next
    case (Some old)
    then have "first_customer_info (store_customer_info row store) (ci_customer_name row) = Some row"
      unfolding name [symmetric] by (rule first_info_store)
    then show ?thesis using Some by (simp add: t1 name)
  qed
  have "customer_policies t1 = customer_policies store"
    by (simp add: t1 add_customer_info_def store_customer_info_def)
  with run look show ?thesis by simp
qed


theorem info_commit_survives_policy_failure_witness:
  "post_updatecustomerinfo sized_engine example_clock
     \<lparr>ur_customer_info = Some example_info_update,
      ur_customer_policy = Some example_policy_too_long\<rparr> example_store =
     (Inl InternalServerError,
      example_store\<lparr>customer_info :=
        [\<lparr>ci_customer_name = lit ''Diya'', ci_final_premium_amount = Some (lit ''16,500''),
          ci_addons_with_amount = None\<rparr>]\<rparr>) \<and>
   customer_policies
     (example_store\<lparr>customer_info :=
        [\<lparr>ci_customer_name = lit ''Diya'', ci_final_premium_amount = Some (lit ''16,500''),
          ci_addons_with_amount = None\<rparr>]\<rparr>) = [example_policy]"
proof -
  let ?req = "\<lparr>ur_customer_info = Some example_info_update,
      ur_customer_policy = Some example_policy_too_long\<rparr>"
  let ?row = "\<lparr>ci_customer_name = lit ''Diya'', ci_final_premium_amount = Some (lit ''16,500''),
          ci_addons_with_amount = None\<rparr>"
  let ?t1 = "example_store\<lparr>customer_info := [?row]\<rparr>"
  let ?prow = "upsert_policy_row example_clock
      (first_customer_policy ?t1 (cpu_customer_name example_policy_too_long))
      example_policy_too_long"
  let ?t2 = "if first_customer_policy ?t1 (cpu_customer_name example_policy_too_long) = None
      then add_customer_policy ?prow ?t1 else store_customer_policy ?prow ?t1"
  have iname: "ciu_customer_name example_info_update = lit ''Diya''"
    by (simp add: example_info_update_def)
  have pname: "cpu_customer_name example_policy_too_long = lit ''Diya''"
    by (simp add: example_policy_too_long_def unset_policy_update_def)
  have ifound: "first_customer_info example_store (lit ''Diya'') =
      Some \<lparr>ci_customer_name = lit ''Diya'',
            ci_final_premium_amount = Some (lit ''15,000''),
            ci_addons_with_amount = Some (lit ''Consumables Coverage: 1,500'')\<rparr>"
    by (simp add: first_customer_info_def example_store_def)
  have stripped: "strip (lit '' 16,500 '') = lit ''16,500''"
    by (simp add: strip_def lit_def py_isspace_def)
  have row: "?row = upsert_info_row
      (first_customer_info example_store (ciu_customer_name example_info_update))
      example_info_update"
    unfolding iname ifound
    by (simp add: upsert_info_row_def example_info_update_def stripped)
  have t1: "?t1 = (if first_customer_info example_store
        (ciu_customer_name example_info_update) = None
      then add_customer_info ?row example_store else store_customer_info ?row example_store)"
    unfolding iname ifound
    by (simp add: store_customer_info_def example_store_def)
  have pfound: "first_customer_policy ?t1 (lit ''Diya'') = Some example_policy"
    by (simp add: first_customer_policy_def example_store_def example_policy_def)
  have accepted: "sized_engine ?t1"
    by (simp add: sized_engine_def example_store_def example_policy_def policy_row_fits_def
        info_row_fits_def fits_def lit_def)
  have "F_age \<in> set updatable_fields" by (simp add: updatable_fields_def)
  from upsert_existing_getattr [OF this, of example_clock example_policy example_policy_too_long]
  have age: "cp_age (upsert_policy_row example_clock (Some example_policy)
      example_policy_too_long) = Some (lit ''twenty-five to thirty'')"
    by (simp add: example_policy_too_long_def unset_policy_update_def)
  have pol: "customer_policies ?t1 = [example_policy]"
    by (simp add: example_store_def)
  have "\<not> policy_row_fits (upsert_policy_row example_clock (Some example_policy)
      example_policy_too_long)"
    by (simp add: policy_row_fits_def age fits_def lit_def)
  then have refused: "\<not> sized_engine ?t2"
    unfolding pname pfound
    by (simp add: sized_engine_def store_customer_policy_def pol
        upsert_existing_frame example_policy_def)
  from info_commit_survives_policy_failure [of ?req example_info_update example_policy_too_long ?row example_store
      ?t1 ?prow example_clock ?t2 sized_engine, OF _ _ row t1 refl refl accepted refused]
  show ?thesis using pol by simp
qed

section \<open>The search endpoint\<close>

text \<open>
  Claim C6, as stated, at the filter \<open>""\<close> (the request \<open>/customerinfo?name=\<close>) on
  an empty table: a filter is supplied and no record matches it, yet the answer is
  the empty listing, not 404, because the handler tests the truthiness of the filter.
\<close>

theorem search_empty_filter_counterexample:
  "search_customers ascii_ilike (Some []) empty_store =
     Inr \<lparr>sr_search_term = None, sr_total = 0, sr_customers = []\<rparr>"
  by (simp add: search_customers_def empty_store_def)

text \<open>
  Under \<open>LIKE\<close>, a pattern without \<open>%\<close> and \<open>_\<close>, put between two \<open>%\<close>, matches
  exactly the values that contain it.
\<close>

lemma like_percent: "like [37] v"
  by (induction v) simp_all

lemma like_literal_then_percent:
  "37 \<notin> set p \<Longrightarrow> 95 \<notin> set p \<Longrightarrow> like (p @ [37]) v \<longleftrightarrow> starts_with p v"
proof (induction p v rule: starts_with.induct)
  case (1 v)
  then show ?case by (simp add: like_percent)
next
  case (2 x xs)
  then show ?case by simp
next
  case (3 x xs c cs)
  then show ?case by simp
qed

lemma starts_with_Nil: "starts_with p [] \<longleftrightarrow> p = []"
  by (cases p) simp_all

lemma like_between_percents:
  assumes "37 \<notin> set p" and "95 \<notin> set p"
  shows "like (37 # p @ [37]) v \<longleftrightarrow> is_substring p v"
proof (induction v)
  case Nil
  show ?case
    using like_literal_then_percent [OF assms, of "[]"] by (simp add: starts_with_Nil)
next
  case (Cons c cs)
  show ?case
    using like_literal_then_percent [OF assms, of "c # cs"] Cons by simp
qed

lemma ascii_lower_not_wildcard:
  "ascii_lower c = 37 \<longleftrightarrow> c = 37" "ascii_lower c = 95 \<longleftrightarrow> c = 95"
  by (auto simp: ascii_lower_def)

lemma ascii_ilike_substring:
  assumes "37 \<notin> set n" and "95 \<notin> set n"
  shows "ascii_ilike (lit ''%'' @ n @ lit ''%'') v \<longleftrightarrow> contains_ci n v"
proof -
  have "37 \<notin> set (map ascii_lower n)"
  proof
    assume "37 \<in> set (map ascii_lower n)"
    then obtain c where "c \<in> set n" and "ascii_lower c = 37" by auto
    then show False using assms(1) by (simp add: ascii_lower_not_wildcard)
  qed
  moreover have "95 \<notin> set (map ascii_lower n)"
  proof
    assume "95 \<in> set (map ascii_lower n)"
    then obtain c where "c \<in> set n" and "ascii_lower c = 95" by auto
    then show False using assms(2) by (simp add: ascii_lower_not_wildcard)
  qed
  ultimately have "37 \<notin> set (map ascii_lower n)" and "95 \<notin> set (map ascii_lower n)"
    by simp_all
  from like_between_percents [OF this, of "map ascii_lower v"]
  show ?thesis
    by (simp add: ascii_ilike_def contains_ci_def lit_def ascii_lower_def)
qed

text \<open>
  When the engine's \<open>ILIKE\<close> decides the filter between two \<open>%\<close> as the substring
  test on the names of the table, a non-empty filter that no name contains ends in 404.
\<close>

lemma search_not_found_of_substring:
  assumes agree: "\<forall>r \<in> set (customer_policies t).
      ilike (lit ''%'' @ n @ lit ''%'') (cp_customer_name r) \<longleftrightarrow>
      contains_ci n (cp_customer_name r)"
    and nomatch: "filter (\<lambda>r. contains_ci n (cp_customer_name r)) (customer_policies t) = []"
    and nonempty: "n \<noteq> []"
  shows "search_customers ilike (Some n) t = Inl NotFound"
proof -
  have "filter (\<lambda>r. ilike (lit ''%'' @ n @ lit ''%'') (cp_customer_name r)) (customer_policies t) =
      filter (\<lambda>r. contains_ci n (cp_customer_name r)) (customer_policies t)"
    using agree by (intro filter_cong) auto
  with nomatch nonempty show ?thesis
    by (simp add: search_customers_def)
qed

text \<open>
  Claim C6, amended.  A non-empty filter that no record matches, as a substring with
  letters compared without regard to case, ends in 404: for an engine whose \<open>ILIKE\<close>
  is that substring test on the names of the table, and so under \<open>LIKE\<close> for every
  filter without \<open>%\<close> and \<open>_\<close>.  With no filter, or with the empty filter, an empty
  table gives the empty listing with total 0.
\<close>

theorem search_not_found_only_for_nonempty_filter:
  "(\<forall>n. name = Some n \<and> n \<noteq> [] \<and>
        (\<forall>r \<in> set (customer_policies t).
           ilike (lit ''%'' @ n @ lit ''%'') (cp_customer_name r) \<longleftrightarrow>
           contains_ci n (cp_customer_name r)) \<and>
        filter (\<lambda>r. contains_ci n (cp_customer_name r)) (customer_policies t) = [] \<longrightarrow>
        search_customers ilike name t = Inl NotFound) \<and>
   (\<forall>n. name = Some n \<and> n \<noteq> [] \<and> 37 \<notin> set n \<and> 95 \<notin> set n \<and>
        filter (\<lambda>r. contains_ci n (cp_customer_name r)) (customer_policies t) = [] \<longrightarrow>
        search_customers ascii_ilike name t = Inl NotFound) \<and>
   ((name = None \<or> name = Some []) \<and> customer_policies t = [] \<longrightarrow>
        search_customers ilike name t =
          Inr \<lparr>sr_search_term = None, sr_total = 0, sr_customers = []\<rparr>)"
proof (intro conjI allI impI)
  fix n
  assume "name = Some n \<and> n \<noteq> [] \<and>
        (\<forall>r \<in> set (customer_policies t).
           ilike (lit ''%'' @ n @ lit ''%'') (cp_customer_name r) \<longleftrightarrow>
           contains_ci n (cp_customer_name r)) \<and>
        filter (\<lambda>r. contains_ci n (cp_customer_name r)) (customer_policies t) = []"
  then show "search_customers ilike name t = Inl NotFound"
    using search_not_found_of_substring [of t ilike n] by blast
next
  fix n
  assume h: "name = Some n \<and> n \<noteq> [] \<and> 37 \<notin> set n \<and> 95 \<notin> set n \<and>
        filter (\<lambda>r. contains_ci n (cp_customer_name r)) (customer_policies t) = []"
  then have "\<forall>r \<in> set (customer_policies t).
      ascii_ilike (lit ''%'' @ n @ lit ''%'') (cp_customer_name r) \<longleftrightarrow>
      contains_ci n (cp_customer_name r)"
    by (simp add: ascii_ilike_substring)
  with h show "search_customers ascii_ilike name t = Inl NotFound"
    using search_not_found_of_substring [of t ascii_ilike n] by blast
next
  assume "(name = None \<or> name = Some []) \<and> customer_policies t = []"
  then show "search_customers ilike name t =
      Inr \<lparr>sr_search_term = None, sr_total = 0, sr_customers = []\<rparr>"
    by (auto simp: search_customers_def)
qed

theorem search_not_found_only_for_nonempty_filter_witness:
  "search_customers (\<lambda>pattern v. contains_ci (butlast (tl pattern)) v) (Some (lit ''zoe''))
     example_store = Inl NotFound \<and>
   search_customers ascii_ilike (Some (lit ''IYER'')) example_store = Inl NotFound \<and>
   search_customers ascii_ilike None empty_store =
     Inr \<lparr>sr_search_term = None, sr_total = 0, sr_customers = []\<rparr>"
proof -
  let ?substring = "\<lambda>pattern v. contains_ci (butlast (tl pattern)) v"
  have agree: "\<forall>r \<in> set (customer_policies example_store).
      ?substring (lit ''%'' @ lit ''zoe'' @ lit ''%'') (cp_customer_name r) \<longleftrightarrow>
      contains_ci (lit ''zoe'') (cp_customer_name r)"
    by (simp add: lit_def)
  have nomatch: "filter (\<lambda>r. contains_ci (lit ''zoe'') (cp_customer_name r))
      (customer_policies example_store) = []"
    by (simp add: example_store_def example_policy_def contains_ci_def lit_def ascii_lower_def)
  have nomatch': "filter (\<lambda>r. contains_ci (lit ''IYER'') (cp_customer_name r))
      (customer_policies example_store) = []"
    by (simp add: example_store_def example_policy_def contains_ci_def lit_def ascii_lower_def)
  have plain: "lit ''zoe'' \<noteq> []" "lit ''IYER'' \<noteq> []"
    "37 \<notin> set (lit ''IYER'')" "95 \<notin> set (lit ''IYER'')"
    by (simp_all add: lit_def)
  have empty: "customer_policies empty_store = []"
    by (simp add: empty_store_def)
  from search_not_found_only_for_nonempty_filter [of "Some (lit ''zoe'')" example_store ?substring]
    agree nomatch plain
  have a: "search_customers ?substring (Some (lit ''zoe'')) example_store = Inl NotFound"
    by blast
  from search_not_found_only_for_nonempty_filter [of "Some (lit ''IYER'')" example_store ascii_ilike]
    nomatch' plain
  have b: "search_customers ascii_ilike (Some (lit ''IYER'')) example_store = Inl NotFound"
    by blast
  from search_not_found_only_for_nonempty_filter [of None empty_store ascii_ilike] empty
  have c: "search_customers ascii_ilike None empty_store =
     Inr \<lparr>sr_search_term = None, sr_total = 0, sr_customers = []\<rparr>"
    by blast
  from a b c show ?thesis by (intro conjI)
qed

text \<open>
  Line 279 puts the filter into the pattern as it is, so that a \<open>%\<close> or \<open>_\<close> of the
  filter is a wildcard: \<open>d_Y\<close> finds Diya, whose name does not contain it.  The
  docstring of the handler (line 268) announces a case-insensitive partial match, and the
  amended claim leaves such filters out.
\<close>

lemma search_wildcard_filter:
  "\<not> contains_ci (lit ''d_Y'') (lit ''Diya'') \<and>
   search_customers ascii_ilike (Some (lit ''d_Y'')) example_store =
     Inr \<lparr>sr_search_term = Some (Some (lit ''d_Y'')), sr_total = 1,
          sr_customers = [customer_result_of example_policy]\<rparr>"
proof -
  have no: "\<not> contains_ci (lit ''d_Y'') (lit ''Diya'')"
    by (simp add: contains_ci_def lit_def ascii_lower_def)
  have hit: "ascii_ilike (lit ''%'' @ lit ''d_Y'' @ lit ''%'') (lit ''Diya'')"
    by (simp add: ascii_ilike_def lit_def ascii_lower_def)
  have name: "cp_customer_name example_policy = lit ''Diya''"
    by (simp add: example_policy_def)
  have "filter (\<lambda>r. ascii_ilike (lit ''%'' @ lit ''d_Y'' @ lit ''%'') (cp_customer_name r))
      (customer_policies example_store) = [example_policy]"
    by (simp add: example_store_def name hit)
  moreover have "truthy (Some (lit ''d_Y''))"
    by (simp add: lit_def)
  ultimately have "search_customers ascii_ilike (Some (lit ''d_Y'')) example_store =
     Inr \<lparr>sr_search_term = Some (Some (lit ''d_Y'')), sr_total = 1,
          sr_customers = [customer_result_of example_policy]\<rparr>"
    by (simp add: search_customers_def Let_def)
  with no show ?thesis by (rule conjI)
qed


section \<open>The lookup endpoint\<close>

lemma example_query:
  "query_claims example_store (lit ''Diya'') =
     [example_claim ''CLM4'' (lit ''about 900'') 9 ''APPROVED'',
      example_claim ''CLM2'' (lit ''?12,500 '') 7 ''REJECTED'',
      example_claim ''CLM1'' (8377 # lit ''45,000'') 4 ''APPROVED'',
      example_claim ''CLM3'' (lit ''7,000'') 2 ''Under Review'']"
  by (simp add: query_claims_def example_store_def example_claims_def example_claim_def
      submitted_key_def datetime_key_def)

lemma rupee_amount:
  "amount_str (8377 # lit ''45,000'') = lit ''45000''"
  "isdigit (lit ''45000'')"
  "int_of_str (lit ''45000'') = Some 45000"
  by (simp_all add: amount_str_def remove_char_def strip_def py_isspace_def lit_def
      isdigit_def isdigit_char_def decimal_value_def decimal_starts_def int_of_str_def)

lemma other_amounts:
  "amount_str (lit ''?12,500 '') = lit ''12500''"
  "isdigit (lit ''12500'')"
  "int_of_str (lit ''12500'') = Some 12500"
  "amount_str (lit ''about 900'') = lit ''about 900''"
  "\<not> isdigit (lit ''about 900'')"
  by (simp_all add: amount_str_def remove_char_def strip_def py_isspace_def lit_def
      isdigit_def isdigit_char_def decimal_value_def decimal_starts_def int_of_str_def
      other_digits_def)

lemma superscript_amount:
  "amount_str [178] = [178]"
  "isdigit [178]"
  "int_of_str [178] = None"
  by (simp_all add: amount_str_def remove_char_def strip_def py_isspace_def
      isdigit_def isdigit_char_def decimal_value_def decimal_starts_def int_of_str_def
      other_digits_def)

lemma example_summary:
  "\<exists>rate. summarize (query_claims example_store (lit ''Diya'')) =
     Some \<lparr>cs_total_claims = 4, cs_approved_claims = 2, cs_rejected_claims = 1,
           cs_under_review_claims = 0, cs_approval_rate = rate,
           cs_total_approved_amount = lit ''45,000'',
           cs_total_rejected_amount = lit ''12,500'',
           cs_last_claim_date = Some (lit ''2025-01-09T09:30:00'')\<rparr>"
proof -
  have a: "add_amounts [example_claim ''CLM4'' (lit ''about 900'') 9 ''APPROVED'',
      example_claim ''CLM1'' (8377 # lit ''45,000'') 4 ''APPROVED''] 0 = Some 45000"
    by (simp add: example_claim_def rupee_amount other_amounts)
  have r: "add_amounts [example_claim ''CLM2'' (lit ''?12,500 '') 7 ''REJECTED''] 0 = Some 12500"
    by (simp add: example_claim_def other_amounts)
  have f1: "format_commas 45000 = lit ''45,000''" and f2: "format_commas 12500 = lit ''12,500''"
    by (simp_all add: zfill_def lit_def numeral_2_eq_2)
  have d: "last_claim_date (query_claims example_store (lit ''Diya'')) =
      Some (Some (lit ''2025-01-09T09:30:00''))"
    unfolding example_query
    by (simp add: last_claim_date_def example_claim_def isoformat_datetime_def
        isoformat_date_def zfill_def lit_def)
  have fa: "filter (\<lambda>c. ic_status c = lit ''APPROVED'')
        (query_claims example_store (lit ''Diya'')) =
      [example_claim ''CLM4'' (lit ''about 900'') 9 ''APPROVED'',
       example_claim ''CLM1'' (8377 # lit ''45,000'') 4 ''APPROVED'']"
    and fr: "filter (\<lambda>c. ic_status c = lit ''REJECTED'')
        (query_claims example_store (lit ''Diya'')) =
      [example_claim ''CLM2'' (lit ''?12,500 '') 7 ''REJECTED'']"
    and fu: "filter (\<lambda>c. ic_status c = lit ''UNDER_REVIEW'')
        (query_claims example_store (lit ''Diya'')) = []"
    unfolding example_query by (simp_all add: example_claim_def lit_def)
  have len: "length (query_claims example_store (lit ''Diya'')) = 4"
    unfolding example_query by simp
  show ?thesis
    unfolding summarize_def Let_def fa fr fu a r d len
    by (simp add: f1 f2 del: format_commas.simps)
qed


lemma example_lookup:
  "\<exists>rate. get_customer_info (lit ''Diya'') example_store =
     Inr \<lparr>cir_customer_policy = customer_policy_response example_policy,
          cir_claims = map claim_response (query_claims example_store (lit ''Diya'')),
          cir_claims_summary =
            \<lparr>cs_total_claims = 4, cs_approved_claims = 2, cs_rejected_claims = 1,
             cs_under_review_claims = 0, cs_approval_rate = rate,
             cs_total_approved_amount = lit ''45,000'',
             cs_total_rejected_amount = lit ''12,500'',
             cs_last_claim_date = Some (lit ''2025-01-09T09:30:00'')\<rparr>\<rparr>"
proof -
  have found: "first_customer_policy example_store (lit ''Diya'') = Some example_policy"
    by (simp add: first_customer_policy_def example_store_def example_policy_def)
  from example_summary obtain rate where
    "summarize (query_claims example_store (lit ''Diya'')) =
     Some \<lparr>cs_total_claims = 4, cs_approved_claims = 2, cs_rejected_claims = 1,
           cs_under_review_claims = 0, cs_approval_rate = rate,
           cs_total_approved_amount = lit ''45,000'',
           cs_total_rejected_amount = lit ''12,500'',
           cs_last_claim_date = Some (lit ''2025-01-09T09:30:00'')\<rparr>" ..
  then show ?thesis
    by (simp add: get_customer_info_def found Let_def)
qed


text \<open>
  Claim C4.  In a successful lookup, \<open>total_claims\<close> is the number of claims
  returned, and each of the three bucket counts is the number of returned claims whose
  status is exactly \<open>APPROVED\<close>, \<open>REJECTED\<close>, \<open>UNDER_REVIEW\<close>; a claim with any
  other status is in the total and in no bucket.
\<close>

theorem status_buckets_exact_match:
  assumes "get_customer_info customer_name t = Inr resp"
  shows "cs_total_claims (cir_claims_summary resp) = length (cir_claims resp) \<and>
         cs_approved_claims (cir_claims_summary resp) =
           length (filter (\<lambda>c. cr_status c = lit ''APPROVED'') (cir_claims resp)) \<and>
         cs_rejected_claims (cir_claims_summary resp) =
           length (filter (\<lambda>c. cr_status c = lit ''REJECTED'') (cir_claims resp)) \<and>
         cs_under_review_claims (cir_claims_summary resp) =
           length (filter (\<lambda>c. cr_status c = lit ''UNDER_REVIEW'') (cir_claims resp))"
proof -
  have st: "(\<lambda>c. cr_status c = s) \<circ> claim_response = (\<lambda>c. ic_status c = s)" for s
    by (simp add: fun_eq_iff claim_response_def)
  from assms obtain row summary where
    s: "summarize (query_claims t customer_name) = Some summary" and
    r: "resp = \<lparr>cir_customer_policy = customer_policy_response row,
                cir_claims = map claim_response (query_claims t customer_name),
                cir_claims_summary = summary\<rparr>"
    by (auto simp: get_customer_info_def Let_def split: option.splits)
  from s show ?thesis unfolding r
    by (auto simp: summarize_def Let_def st simp del: format_commas.simps
        split: option.splits)
qed


theorem status_buckets_exact_match_witness:
  "\<exists>resp. get_customer_info (lit ''Diya'') example_store = Inr resp \<and>
     length (cir_claims resp) = 4 \<and>
     length (filter (\<lambda>c. cr_status c = lit ''APPROVED'') (cir_claims resp)) = 2 \<and>
     length (filter (\<lambda>c. cr_status c = lit ''REJECTED'') (cir_claims resp)) = 1 \<and>
     length (filter (\<lambda>c. cr_status c = lit ''UNDER_REVIEW'') (cir_claims resp)) = 0 \<and>
     length (filter (\<lambda>c. cr_status c = lit ''Under Review'') (cir_claims resp)) = 1"
proof -
  from example_lookup obtain resp where
    run: "get_customer_info (lit ''Diya'') example_store = Inr resp" and
    sm: "cs_total_claims (cir_claims_summary resp) = 4"
        "cs_approved_claims (cir_claims_summary resp) = 2"
        "cs_rejected_claims (cir_claims_summary resp) = 1"
        "cs_under_review_claims (cir_claims_summary resp) = 0" and
    cl: "cir_claims resp = map claim_response (query_claims example_store (lit ''Diya''))"
    by force
  have other: "length (filter (\<lambda>c. cr_status c = lit ''Under Review'') (cir_claims resp)) = 1"
    unfolding cl example_query by (simp add: claim_response_def example_claim_def lit_def)
  from status_buckets_exact_match [OF run] sm other run show ?thesis by simp
qed

text \<open>
  What the loop of lines 202-210 adds up when \<open>int\<close> does not raise: the integer of
  every amount whose residue passes \<open>isdigit\<close>, and nothing for the others.
\<close>

lemma add_amounts_sum:
  "add_amounts claims acc = Some n \<Longrightarrow>
   n = acc + sum_list (map (\<lambda>c. if isdigit (amount_str (ic_amount c))
                                  then the (int_of_str (amount_str (ic_amount c))) else 0)
                         claims)"
proof (induction claims arbitrary: acc)
  case Nil
  then show ?case by simp
next
  case (Cons c claims)
  show ?case
  proof (cases "isdigit (amount_str (ic_amount c))")
    case True
    with Cons.prems obtain x where
      x: "int_of_str (amount_str (ic_amount c)) = Some x" and
      rest: "add_amounts claims (acc + x) = Some n"
      by (auto split: option.splits)
    from Cons.IH [OF rest] x True show ?thesis by simp
  next
    case False
    with Cons.prems have "add_amounts claims acc = Some n" by simp
    from Cons.IH [OF this] False show ?thesis by simp
  qed
qed

text \<open>
  Claim C5 at an approved claim whose amount is the superscript two: its residue
  passes \<open>isdigit\<close>, \<open>int\<close> raises \<open>ValueError\<close> on it, and the lookup ends in
  status 500 instead of skipping the amount.
\<close>

theorem superscript_amount_fails_lookup:
  "get_customer_info (lit ''Diya'') superscript_store = Inl InternalServerError"
proof -
  have found: "first_customer_policy superscript_store (lit ''Diya'') = Some example_policy"
    by (simp add: first_customer_policy_def superscript_store_def example_policy_def)
  have q: "query_claims superscript_store (lit ''Diya'') =
      [example_claim ''CLM9'' [178] 4 ''APPROVED'']"
    by (simp add: query_claims_def superscript_store_def example_claim_def)
  have "add_amounts [example_claim ''CLM9'' [178] 4 ''APPROVED''] 0 = None"
    by (simp add: example_claim_def superscript_amount)
  then have "summarize (query_claims superscript_store (lit ''Diya'')) = None"
    unfolding q by (simp add: summarize_def Let_def example_claim_def)
  then show ?thesis
    by (simp add: get_customer_info_def found Let_def)
qed

section \<open>Floating-point error of the approval rate\<close>

text \<open>
  Rounding to the nearest float changes a positive number by at most one part in
  \<open>2\<^sup>5\<^sup>3\<close>.  The quotient and the product of line 217 are therefore within
  \<open>300 / 2\<^sup>5\<^sup>3\<close> of the exact percentage, which is too little to move it across more
  than a tie of the decimal rounding as long as there are at most \<open>10\<^sup>1\<^sup>0\<close> claims.
\<close>

lemma round_half_even_error: "\<bar>of_int (round_half_even q) - q\<bar> \<le> 1 / 2"
proof -
  have "of_int \<lfloor>q\<rfloor> \<le> q" and "q < of_int \<lfloor>q\<rfloor> + 1" by linarith+
  then show ?thesis
    by (auto simp: round_half_even_def Let_def abs_le_iff)
qed

lemma ilog2_le:
  assumes "0 < q"
  shows "power_int 2 (ilog2 q) \<le> q"
proof -
  obtain n d where nd: "quotient_of q = (n, d)" by (cases "quotient_of q")
  then have d: "0 < d" by (rule quotient_of_denom_pos)
  have q: "q = of_int n / of_int d" using nd by (rule quotient_of_div)
  have n: "0 < n" using assms d q by (simp add: zero_less_divide_iff)
  let ?k = "bitlen n - bitlen d"
  have "power_int 2 (?k - 1) \<le> q"
  proof -
    have bn: "1 \<le> bitlen n" and bd: "1 \<le> bitlen d"
      using n d by (simp_all add: bitlen_alt_def)
    have "(2::int) ^ nat (bitlen n - 1) \<le> n" using bitlen_bounds [OF n] ..
    then have "(of_int ((2::int) ^ nat (bitlen n - 1)) :: rat) \<le> of_int n"
      by (simp only: of_int_le_iff)
    then have ln: "(power_int 2 (bitlen n - 1) :: rat) \<le> of_int n"
      using bn by (simp add: power_int_def)
    have "d < (2::int) ^ nat (bitlen d)" using bitlen_bounds [OF d] ..
    then have "(of_int d :: rat) \<le> of_int ((2::int) ^ nat (bitlen d))"
      by (simp only: of_int_le_iff less_imp_le)
    then have ud: "(of_int d :: rat) \<le> power_int 2 (bitlen d)"
      using bd by (simp add: power_int_def)
    have "?k - 1 = (bitlen n - 1) - bitlen d" by simp
    then have "(power_int 2 (?k - 1) :: rat) = power_int 2 ((bitlen n - 1) - bitlen d)"
      by (simp only:)
    also have "\<dots> = power_int 2 (bitlen n - 1) / power_int 2 (bitlen d)"
      by (rule power_int_diff) simp
    also have "\<dots> \<le> of_int n / power_int 2 (bitlen d)"
      using ln by (simp add: divide_right_mono)
    also have "\<dots> \<le> of_int n / of_int d"
      using ud d n by (simp add: divide_left_mono)
    finally show ?thesis using q by simp
  qed
  then show ?thesis
    by (simp add: ilog2_def nd Let_def)
qed

lemma binary64_zero: "binary64 0 = 0"
  by (simp add: binary64_def)

lemma binary64_error:
  assumes "0 < q"
  shows "\<bar>binary64 q - q\<bar> \<le> q / 2 ^ 53"
proof -
  let ?u = "power_int 2 (ilog2 q - 52) :: rat"
  have u: "0 < ?u" by simp
  have b: "binary64 q = of_int (round_half_even (q / ?u)) * ?u"
    using assms by (simp add: binary64_def Let_def)
  have "\<bar>of_int (round_half_even (q / ?u)) - q / ?u\<bar> \<le> 1 / 2"
    by (rule round_half_even_error)
  then have "\<bar>of_int (round_half_even (q / ?u)) - q / ?u\<bar> * ?u \<le> 1 / 2 * ?u"
    using u by (simp add: mult_right_mono)
  moreover have "\<bar>of_int (round_half_even (q / ?u)) - q / ?u\<bar> * ?u =
      \<bar>of_int (round_half_even (q / ?u)) * ?u - q\<bar>"
  proof -
    have "\<bar>of_int (round_half_even (q / ?u)) - q / ?u\<bar> * ?u =
        \<bar>(of_int (round_half_even (q / ?u)) - q / ?u) * ?u\<bar>"
      using u by (simp add: abs_mult)
    also have "(of_int (round_half_even (q / ?u)) - q / ?u) * ?u =
        of_int (round_half_even (q / ?u)) * ?u - q"
      using u by (simp add: algebra_simps)
    finally show ?thesis .
  qed
  ultimately have e1: "\<bar>binary64 q - q\<bar> \<le> ?u / 2" by (simp add: b)
  have "?u = power_int 2 (ilog2 q) / 2 ^ 52"
    by (simp add: power_int_diff)
  also have "\<dots> \<le> q / 2 ^ 52"
    using ilog2_le [OF assms] by (simp add: divide_right_mono)
  finally have "?u / 2 \<le> q / 2 ^ 53" by simp
  with e1 show ?thesis by linarith
qed

lemma round_half_even_zero: "round_half_even 0 = 0"
  by (simp add: round_half_even_def)

lemma abs_diff_triangle: "\<bar>x - z\<bar> \<le> \<bar>x - y\<bar> + \<bar>y - z\<bar>" for x y z :: rat
  by linarith

lemma add_hundred_mono: "A \<le> a \<Longrightarrow> B \<le> b \<Longrightarrow> A + 100 * B \<le> a + 100 * b" for A B :: rat
  by linarith

lemma float_pipeline_error:
  assumes a: "0 < a" and at: "a \<le> t"
  defines "q \<equiv> (of_nat a / of_nat t :: rat)"
  shows "\<bar>float_mul (true_div a t) 100 - 100 * q\<bar> \<le> 300 * q / 2 ^ 53"
proof -
  have t: "0 < t" using a at by simp
  have q: "0 < q" using a t by (simp add: q_def)
  let ?x1 = "binary64 q"
  let ?x2 = "binary64 (?x1 * 100)"
  have e1: "\<bar>?x1 - q\<bar> \<le> q / 2 ^ 53" using q by (rule binary64_error)
  have "q / 2 ^ 53 < q" using q by simp
  with e1 have x1: "0 < ?x1" by linarith
  have "q / 2 ^ 53 \<le> q" using q by simp
  with e1 have x1u: "?x1 \<le> 2 * q" by linarith
  have "0 < ?x1 * 100" using x1 by simp
  then have e2: "\<bar>?x2 - ?x1 * 100\<bar> \<le> ?x1 * 100 / 2 ^ 53" by (rule binary64_error)
  have "?x1 * 100 / 2 ^ 53 \<le> 2 * q * 100 / 2 ^ 53"
    using x1u by (simp add: divide_right_mono)
  with e2 have e2': "\<bar>?x2 - ?x1 * 100\<bar> \<le> 200 * q / 2 ^ 53" by simp
  have s: "\<bar>?x1 * 100 - 100 * q\<bar> = 100 * \<bar>?x1 - q\<bar>"
  proof -
    have "?x1 * 100 - 100 * q = 100 * (?x1 - q)" by (simp add: algebra_simps)
    then show ?thesis by (simp only: abs_mult abs_numeral)
  qed
  have "\<bar>?x2 - 100 * q\<bar> \<le> \<bar>?x2 - ?x1 * 100\<bar> + \<bar>?x1 * 100 - 100 * q\<bar>"
    by (rule abs_diff_triangle)
  then have "\<bar>?x2 - 100 * q\<bar> \<le> \<bar>?x2 - ?x1 * 100\<bar> + 100 * \<bar>?x1 - q\<bar>"
    unfolding s .
  also have "\<dots> \<le> 200 * q / 2 ^ 53 + 100 * (q / 2 ^ 53)"
    by (rule add_hundred_mono [OF e2' e1])
  also have "\<dots> = 300 * q / 2 ^ 53" by simp
  finally show ?thesis by (simp add: float_mul_def true_div_def q_def)
qed

lemma approval_rate_rounds:
  assumes t: "0 < t" and at: "a \<le> t" and small: "t \<le> 10 ^ 10"
  shows "\<exists>k. approval_rate a t = PyFloat (binary64 (of_int k / 100)) \<and>
           \<bar>of_int k / 100 - 100 * of_nat a / of_nat t\<bar> \<le> (1 / 200 :: rat)"
proof -
  let ?x2 = "float_mul (true_div a t) 100"
  let ?k = "round_half_even (?x2 * 100)"
  have rate: "approval_rate a t = PyFloat (binary64 (of_int ?k / 100))"
    using t by (simp add: approval_rate_def round2_def)
  have close: "\<bar>of_int ?k / 100 - 100 * of_nat a / of_nat t\<bar> \<le> (1 / 200 :: rat)"
  proof (cases "a = 0")
    case True
    then have "?x2 = 0"
      by (simp add: float_mul_def true_div_def binary64_zero)
    then show ?thesis using True by (simp add: round_half_even_zero)
  next
    case False
    then have a: "0 < a" by simp
    let ?q = "of_nat a / of_nat t :: rat"
    let ?T = "of_nat t :: rat"
    have T: "0 < ?T" using t by simp
    have q1: "?q \<le> 1" using at t by simp
    have q0: "0 < ?q" using a t by simp
    have ex: "\<bar>?x2 - 100 * ?q\<bar> \<le> 300 * ?q / 2 ^ 53"
      using float_pipeline_error [OF a at] .
    have ek: "\<bar>of_int ?k - ?x2 * 100\<bar> \<le> 1 / 2" by (rule round_half_even_error)
    have s: "\<bar>?x2 * 100 - 10000 * ?q\<bar> = 100 * \<bar>?x2 - 100 * ?q\<bar>"
    proof -
      have "?x2 * 100 - 10000 * ?q = 100 * (?x2 - 100 * ?q)" by (simp add: algebra_simps)
      then show ?thesis by (simp only: abs_mult abs_numeral)
    qed
    have "\<bar>of_int ?k - 10000 * ?q\<bar> \<le> \<bar>of_int ?k - ?x2 * 100\<bar> + \<bar>?x2 * 100 - 10000 * ?q\<bar>"
      by (rule abs_diff_triangle)
    then have "\<bar>of_int ?k - 10000 * ?q\<bar> \<le> \<bar>of_int ?k - ?x2 * 100\<bar> + 100 * \<bar>?x2 - 100 * ?q\<bar>"
      unfolding s .
    also have "\<dots> \<le> 1 / 2 + 100 * (300 * ?q / 2 ^ 53)"
      by (rule add_hundred_mono [OF ek ex])
    finally have d: "\<bar>of_int ?k - 10000 * ?q\<bar> \<le> 1 / 2 + 30000 * ?q / 2 ^ 53" by simp
    have "\<bar>of_int ?k - 10000 * ?q\<bar> * ?T \<le> (1 / 2 + 30000 * ?q / 2 ^ 53) * ?T"
      using d T by (simp add: mult_right_mono)
    moreover have "\<bar>of_int ?k - 10000 * ?q\<bar> * ?T = \<bar>of_int ?k * ?T - 10000 * of_nat a\<bar>"
    proof -
      have "\<bar>of_int ?k - 10000 * ?q\<bar> * ?T = \<bar>(of_int ?k - 10000 * ?q) * ?T\<bar>"
        using T by (simp add: abs_mult)
      also have "(of_int ?k - 10000 * ?q) * ?T = of_int ?k * ?T - 10000 * of_nat a"
        using T by (simp add: algebra_simps)
      finally show ?thesis .
    qed
    moreover have "(1 / 2 + 30000 * ?q / 2 ^ 53) * ?T = ?T / 2 + 30000 * of_nat a / 2 ^ 53"
      using T by (simp add: algebra_simps)
    ultimately have m: "\<bar>of_int ?k * ?T - 10000 * of_nat a\<bar> \<le> ?T / 2 + 30000 * of_nat a / 2 ^ 53"
      by simp
    have "(of_nat a :: rat) \<le> 10 ^ 10"
      using at small by (metis (no_types) of_nat_le_iff le_trans of_nat_numeral of_nat_power)
    then have "30000 * (of_nat a :: rat) / 2 ^ 53 \<le> 30000 * 10 ^ 10 / 2 ^ 53"
      by (simp add: divide_right_mono)
    also have "\<dots> < (1 / 2 :: rat)" by simp
    finally have tiny: "30000 * (of_nat a :: rat) / 2 ^ 53 < 1 / 2" .
    let ?M = "\<bar>?k * int t - 10000 * int a\<bar>"
    have M: "(of_int ?M :: rat) = \<bar>of_int ?k * ?T - 10000 * of_nat a\<bar>"
      by simp
    have "(of_int ?M :: rat) < ?T / 2 + 1 / 2" using m tiny unfolding M by linarith
    then have "(of_int (2 * ?M) :: rat) < of_int (int t + 1)" by simp
    then have "2 * ?M < int t + 1" by (simp only: of_int_less_iff)
    then have "2 * ?M \<le> int t" by simp
    then have "(of_int (2 * ?M) :: rat) \<le> of_int (int t)" by (simp only: of_int_le_iff)
    then have M2: "(of_int ?M :: rat) \<le> ?T / 2" by simp
    have "\<bar>of_int ?k / 100 - 100 * of_nat a / ?T\<bar> = \<bar>of_int ?k * ?T - 10000 * of_nat a\<bar> / (100 * ?T)"
    proof -
      have "of_int ?k / 100 - 100 * of_nat a / ?T = (of_int ?k * ?T - 10000 * of_nat a) / (100 * ?T)"
        using T by (simp add: field_simps)
      then show ?thesis using T by (simp add: abs_divide del: of_int_diff)
    qed
    also have "\<dots> \<le> (?T / 2) / (100 * ?T)"
      using M2 T unfolding M by (simp add: divide_right_mono)
    also have "\<dots> = 1 / 200" using T by simp
    finally show ?thesis .
  qed
  from rate close show ?thesis by blast
qed

lemma filter_length_le: "length (filter P xs) \<le> length xs"
  by simp

text \<open>
  An integer within one half of a number is the rounding of that number, unless the
  number lies halfway between two integers: then it is one of the two.
\<close>

lemma nearest_int_unique:
  assumes near: "\<bar>of_int k - x\<bar> \<le> (1 / 2 :: rat)"
    and notie: "x - of_int \<lfloor>x\<rfloor> \<noteq> 1 / 2"
  shows "k = round_half_even x"
proof -
  let ?f = "\<lfloor>x\<rfloor>"
  have lo: "of_int ?f \<le> x" and hi: "x < of_int ?f + 1" by linarith+
  from near have k1: "of_int k \<le> x + 1 / 2" and k2: "x - 1 / 2 \<le> of_int k"
    by linarith+
  show ?thesis
  proof (cases "x - of_int ?f < 1 / 2")
    case True
    have "(of_int k :: rat) < of_int ?f + 1" using k1 True by linarith
    then have "(of_int k :: rat) < of_int (?f + 1)" by simp
    then have "k < ?f + 1" by (simp only: of_int_less_iff)
    moreover have "(of_int ?f :: rat) - 1 < of_int k" using k2 lo by linarith
    then have "(of_int (?f - 1) :: rat) < of_int k" by simp
    then have "?f - 1 < k" by (simp only: of_int_less_iff)
    ultimately have "k = ?f" by simp
    then show ?thesis using True by (simp add: round_half_even_def Let_def)
  next
    case False
    with notie have gt: "1 / 2 < x - of_int ?f" by simp
    have "(of_int ?f :: rat) < of_int k" using k2 gt by linarith
    then have "?f < k" by (simp only: of_int_less_iff)
    moreover have "(of_int k :: rat) < of_int ?f + 2" using k1 hi by linarith
    then have "(of_int k :: rat) < of_int (?f + 2)" by simp
    then have "k < ?f + 2" by (simp only: of_int_less_iff)
    ultimately have "k = ?f + 1" by simp
    then show ?thesis using gt False by (simp add: round_half_even_def Let_def)
  qed
qed

lemma nearest_int_tie:
  assumes near: "\<bar>of_int k - x\<bar> \<le> (1 / 2 :: rat)"
    and tie: "x - of_int \<lfloor>x\<rfloor> = 1 / 2"
  shows "k = \<lfloor>x\<rfloor> \<or> k = \<lfloor>x\<rfloor> + 1"
proof -
  let ?f = "\<lfloor>x\<rfloor>"
  from near have k1: "of_int k \<le> x + 1 / 2" and k2: "x - 1 / 2 \<le> of_int k"
    by linarith+
  have "(of_int k :: rat) \<le> of_int ?f + 1" using k1 tie by linarith
  then have "(of_int k :: rat) \<le> of_int (?f + 1)" by simp
  then have "k \<le> ?f + 1" by (simp only: of_int_le_iff)
  moreover have "(of_int ?f :: rat) \<le> of_int k" using k2 tie by linarith
  then have "?f \<le> k" by (simp only: of_int_le_iff)
  ultimately show ?thesis by auto
qed

lemma approval_rate_hundredths:
  assumes t: "0 < t" and at: "a \<le> t" and small: "t \<le> 10 ^ 10"
  shows "\<exists>k. approval_rate a t = PyFloat (binary64 (of_int k / 100)) \<and>
           \<bar>of_int k - exact_hundredths a t\<bar> \<le> (1 / 2 :: rat)"
proof -
  from approval_rate_rounds [OF t at small] obtain k where
    r: "approval_rate a t = PyFloat (binary64 (of_int k / 100))" and
    c: "\<bar>of_int k / 100 - 100 * of_nat a / of_nat t\<bar> \<le> (1 / 200 :: rat)"
    by blast
  have "of_int k - exact_hundredths a t = 100 * (of_int k / 100 - 100 * of_nat a / of_nat t)"
    by (simp add: exact_hundredths_def algebra_simps)
  then have "\<bar>of_int k - exact_hundredths a t\<bar> =
      100 * \<bar>of_int k / 100 - 100 * of_nat a / of_nat t\<bar>"
    by (simp only: abs_mult abs_numeral)
  also have "\<dots> \<le> 100 * (1 / 200)"
    using c by simp
  finally have "\<bar>of_int k - exact_hundredths a t\<bar> \<le> (1 / 2 :: rat)" by simp
  with r show ?thesis by blast
qed

lemma approval_rate_spec:
  assumes t: "0 < t" and at: "a \<le> t" and small: "t \<le> 10 ^ 10"
  shows "(exact_hundredths a t - of_int \<lfloor>exact_hundredths a t\<rfloor> \<noteq> 1 / 2 \<longrightarrow>
            approval_rate a t = PyFloat (binary64 (spec_approval_rate a t))) \<and>
         (exact_hundredths a t - of_int \<lfloor>exact_hundredths a t\<rfloor> = 1 / 2 \<longrightarrow>
            approval_rate a t = PyFloat (binary64 (of_int \<lfloor>exact_hundredths a t\<rfloor> / 100)) \<or>
            approval_rate a t =
              PyFloat (binary64 (of_int (\<lfloor>exact_hundredths a t\<rfloor> + 1) / 100)))"
proof -
  from approval_rate_hundredths [OF t at small] obtain k where
    r: "approval_rate a t = PyFloat (binary64 (of_int k / 100))" and
    c: "\<bar>of_int k - exact_hundredths a t\<bar> \<le> (1 / 2 :: rat)"
    by blast
  show ?thesis
  proof (intro conjI impI)
    assume "exact_hundredths a t - of_int \<lfloor>exact_hundredths a t\<rfloor> \<noteq> 1 / 2"
    with c have "k = round_half_even (exact_hundredths a t)" by (rule nearest_int_unique)
    with r show "approval_rate a t = PyFloat (binary64 (spec_approval_rate a t))"
      by (simp add: spec_approval_rate_def)
  next
    assume "exact_hundredths a t - of_int \<lfloor>exact_hundredths a t\<rfloor> = 1 / 2"
    with c have "k = \<lfloor>exact_hundredths a t\<rfloor> \<or> k = \<lfloor>exact_hundredths a t\<rfloor> + 1"
      by (rule nearest_int_tie)
    with r show "approval_rate a t = PyFloat (binary64 (of_int \<lfloor>exact_hundredths a t\<rfloor> / 100)) \<or>
        approval_rate a t = PyFloat (binary64 (of_int (\<lfloor>exact_hundredths a t\<rfloor> + 1) / 100))"
      by auto
  qed
qed

lemma approval_rate_off_ties:
  assumes "0 < t" and "a \<le> t" and "t \<le> 10 ^ 10"
  shows "(\<not> halfway a t \<longrightarrow>
            approval_rate a t = PyFloat (binary64 (spec_approval_rate a t))) \<and>
         (halfway a t \<longrightarrow>
            approval_rate a t = PyFloat (binary64 (of_int \<lfloor>exact_hundredths a t\<rfloor> / 100)) \<or>
            approval_rate a t =
              PyFloat (binary64 (of_int (\<lfloor>exact_hundredths a t\<rfloor> + 1) / 100)))"
  unfolding halfway_def using assms by (rule approval_rate_spec)

text \<open>
  The bound on the number of claims is needed.  With 6720925273688 approved claims of
  9404499088628 the exact percentage is no tie and rounds to 71.46, and the float
  computation gives 71.47.
\<close>

lemma approval_rate_large_counts:
  "round2 (float_mul (true_div 6720925273688 9404499088628) 100) = binary64 (7147 / 100) \<and>
   spec_approval_rate 6720925273688 9404499088628 = 7146 / 100 \<and>
   exact_hundredths 6720925273688 9404499088628 -
     of_int \<lfloor>exact_hundredths 6720925273688 9404499088628\<rfloor> \<noteq> 1 / 2 \<and>
   binary64 (7147 / 100) \<noteq> binary64 (7146 / 100)"
  unfolding round2_def true_div_def float_mul_def spec_approval_rate_def exact_hundredths_def
    of_nat_numeral
  by code_simp

text \<open>
  A tie goes where the floating-point product falls: 23 approved claims of 160 are
  14.375 per cent, the product is just below, and the rate is 14.37, where the exact
  percentage rounds to 14.38 (to the even digit, and upwards).
\<close>

lemma tie_values:
  "approval_rate 23 160 = PyFloat (binary64 (1437 / 100))"
  "spec_approval_rate 23 160 = 1438 / 100"
  "exact_hundredths 23 160 = 14375 / 10"
  "binary64 (1437 / 100) \<noteq> binary64 (1438 / 100)"
  by code_simp+

lemma tie_halfway:
  "halfway 23 160" "\<lfloor>exact_hundredths 23 160\<rfloor> = 1437"
  "\<lfloor>exact_hundredths 23 160 + 1 / 2\<rfloor> = 1438"
  "\<not> halfway 2 4" "spec_approval_rate 2 4 = 50"
  by code_simp+

text \<open>The lookup on the store with 160 claims.\<close>

lemma tie_claim_fields:
  "ic_customer_name (tie_claim i) = lit ''Diya''"
  "ic_amount (tie_claim i) = lit ''100''"
  "ic_date_submitted (tie_claim i) =
     Some \<lparr>dt_date = \<lparr>year = 2025, month = 1, day = 4\<rparr>, hour = 9, minute = 30, second = 0,
           microsecond = 0\<rparr>"
  "ic_status (tie_claim i) = (if i < 23 then lit ''APPROVED'' else lit ''REJECTED'')"
  by (simp_all add: tie_claim_def example_claim_def)

lemma tie_query:
  "query_claims tie_store (lit ''Diya'') = rev (sort_key submitted_key (map tie_claim [0..<160]))"
proof -
  have "filter (\<lambda>c. ic_customer_name c = lit ''Diya'') (map tie_claim [0..<160]) =
      map tie_claim [0..<160]"
    by (rule filter_True) (auto simp: tie_claim_fields)
  then show ?thesis by (simp add: query_claims_def tie_store_def)
qed

lemma length_filter_rev_sort:
  "length (filter P (rev (sort_key f xs))) = length (filter P xs)"
  by (simp add: rev_filter [symmetric] filter_sort)

lemma count_upto: "length (filter (\<lambda>i. i < 23) [0..<160]) = 23"
  "length (filter (\<lambda>i. \<not> i < 23) [0..<160]) = 137"
  by code_simp+

lemma tie_counts:
  "length (query_claims tie_store (lit ''Diya'')) = 160"
  "length (filter (\<lambda>c. ic_status c = lit ''APPROVED'') (query_claims tie_store (lit ''Diya''))) = 23"
  "length (filter (\<lambda>c. ic_status c = lit ''REJECTED'') (query_claims tie_store (lit ''Diya''))) = 137"
  "length (filter (\<lambda>c. ic_status c = lit ''UNDER_REVIEW'') (query_claims tie_store (lit ''Diya''))) = 0"
proof -
  have ne: "lit ''APPROVED'' \<noteq> lit ''REJECTED''" "lit ''APPROVED'' \<noteq> lit ''UNDER_REVIEW''"
    "lit ''REJECTED'' \<noteq> lit ''UNDER_REVIEW''"
    by (simp_all add: lit_def)
  have a: "(\<lambda>c. ic_status c = lit ''APPROVED'') \<circ> tie_claim = (\<lambda>i. i < 23)"
    using ne by (auto simp: fun_eq_iff tie_claim_fields)
  have r: "(\<lambda>c. ic_status c = lit ''REJECTED'') \<circ> tie_claim = (\<lambda>i. \<not> i < 23)"
    using ne by (auto simp: fun_eq_iff tie_claim_fields)
  have u: "(\<lambda>c. ic_status c = lit ''UNDER_REVIEW'') \<circ> tie_claim = (\<lambda>i. False)"
    using ne by (auto simp: fun_eq_iff tie_claim_fields)
  show "length (query_claims tie_store (lit ''Diya'')) = 160"
    by (simp add: tie_query)
  show "length (filter (\<lambda>c. ic_status c = lit ''APPROVED'')
      (query_claims tie_store (lit ''Diya''))) = 23"
    unfolding tie_query length_filter_rev_sort filter_map a length_map by (rule count_upto)
  show "length (filter (\<lambda>c. ic_status c = lit ''REJECTED'')
      (query_claims tie_store (lit ''Diya''))) = 137"
    unfolding tie_query length_filter_rev_sort filter_map r length_map by (rule count_upto)
  show "length (filter (\<lambda>c. ic_status c = lit ''UNDER_REVIEW'')
      (query_claims tie_store (lit ''Diya''))) = 0"
    unfolding tie_query length_filter_rev_sort filter_map u length_map by simp
qed

lemma hundred_amount:
  "isdigit (amount_str (lit ''100''))"
  "int_of_str (amount_str (lit ''100'')) = Some 100"
  by (simp_all add: amount_str_def remove_char_def strip_def py_isspace_def lit_def
      isdigit_def isdigit_char_def decimal_value_def decimal_starts_def int_of_str_def)

lemma add_amounts_hundreds:
  "\<forall>c \<in> set cs. ic_amount c = lit ''100'' \<Longrightarrow>
   add_amounts cs acc = Some (acc + 100 * length cs)"
  by (induction cs arbitrary: acc) (simp_all add: hundred_amount)

lemma tie_query_set:
  "c \<in> set (filter P (query_claims tie_store (lit ''Diya''))) \<Longrightarrow> \<exists>i. c = tie_claim i"
  by (auto simp: tie_query)

lemma tie_amounts:
  "add_amounts (filter (\<lambda>c. ic_status c = lit ''APPROVED'')
     (query_claims tie_store (lit ''Diya''))) 0 = Some 2300"
  "add_amounts (filter (\<lambda>c. ic_status c = lit ''REJECTED'')
     (query_claims tie_store (lit ''Diya''))) 0 = Some 13700"
proof -
  have all: "\<forall>c \<in> set (filter P (query_claims tie_store (lit ''Diya''))).
      ic_amount c = lit ''100''" for P
    using tie_query_set by (fastforce simp: tie_claim_fields)
  show "add_amounts (filter (\<lambda>c. ic_status c = lit ''APPROVED'')
     (query_claims tie_store (lit ''Diya''))) 0 = Some 2300"
    unfolding add_amounts_hundreds [OF all] tie_counts by simp
  show "add_amounts (filter (\<lambda>c. ic_status c = lit ''REJECTED'')
     (query_claims tie_store (lit ''Diya''))) 0 = Some 13700"
    unfolding add_amounts_hundreds [OF all] tie_counts by simp
qed

lemma tie_last_claim_date:
  "last_claim_date (query_claims tie_store (lit ''Diya'')) =
     Some (Some (lit ''2025-01-04T09:30:00''))"
proof -
  let ?q = "query_claims tie_store (lit ''Diya'')"
  have "?q \<noteq> []" using tie_counts(1) by auto
  then obtain c cs where q: "?q = c # cs" by (cases ?q) auto
  then have "c \<in> set (filter (\<lambda>c. True) ?q)" by simp
  then obtain i where c: "c = tie_claim i" using tie_query_set by blast
  have iso: "isoformat_datetime
      \<lparr>dt_date = \<lparr>year = 2025, month = 1, day = 4\<rparr>, hour = 9, minute = 30, second = 0,
        microsecond = 0\<rparr> = lit ''2025-01-04T09:30:00''"
    by code_simp
  have d: "ic_date_submitted c =
      Some \<lparr>dt_date = \<lparr>year = 2025, month = 1, day = 4\<rparr>, hour = 9, minute = 30, second = 0,
            microsecond = 0\<rparr>"
    unfolding c by (rule tie_claim_fields)
  show ?thesis
    unfolding q last_claim_date_def by (simp only: list.case d option.case iso)
qed

lemma tie_lookup:
  "get_customer_info (lit ''Diya'') tie_store =
     Inr \<lparr>cir_customer_policy = customer_policy_response example_policy,
          cir_claims = map claim_response (query_claims tie_store (lit ''Diya'')),
          cir_claims_summary =
            \<lparr>cs_total_claims = 160, cs_approved_claims = 23, cs_rejected_claims = 137,
             cs_under_review_claims = 0,
             cs_approval_rate = PyFloat (binary64 (1437 / 100)),
             cs_total_approved_amount = lit ''2,300'',
             cs_total_rejected_amount = lit ''13,700'',
             cs_last_claim_date = Some (lit ''2025-01-04T09:30:00'')\<rparr>\<rparr>"
proof -
  have found: "first_customer_policy tie_store (lit ''Diya'') = Some example_policy"
    by (simp add: first_customer_policy_def tie_store_def example_policy_def)
  have f1: "format_commas 2300 = lit ''2,300''" and f2: "format_commas 13700 = lit ''13,700''"
    by (simp_all add: zfill_def lit_def numeral_2_eq_2)
  have "summarize (query_claims tie_store (lit ''Diya'')) =
      Some \<lparr>cs_total_claims = 160, cs_approved_claims = 23, cs_rejected_claims = 137,
             cs_under_review_claims = 0,
             cs_approval_rate = PyFloat (binary64 (1437 / 100)),
             cs_total_approved_amount = lit ''2,300'',
             cs_total_rejected_amount = lit ''13,700'',
             cs_last_claim_date = Some (lit ''2025-01-04T09:30:00'')\<rparr>"
    unfolding summarize_def Let_def tie_amounts tie_last_claim_date tie_counts
    by (simp add: f1 f2 tie_values del: format_commas.simps)
  then show ?thesis
    by (simp add: get_customer_info_def found Let_def)
qed

text \<open>
  Claim C3, as stated, at a customer with 160 claims of which 23 are approved: the
  lookup succeeds with the rate 14.37, and 23 / 160 \<times> 100 = 14.375 rounded to two
  decimal places is 14.38.
\<close>

theorem approval_rate_tie_counterexample:
  "get_customer_info (lit ''Diya'') tie_store =
     Inr \<lparr>cir_customer_policy = customer_policy_response example_policy,
          cir_claims = map claim_response (query_claims tie_store (lit ''Diya'')),
          cir_claims_summary =
            \<lparr>cs_total_claims = 160, cs_approved_claims = 23, cs_rejected_claims = 137,
             cs_under_review_claims = 0,
             cs_approval_rate = PyFloat (binary64 (1437 / 100)),
             cs_total_approved_amount = lit ''2,300'',
             cs_total_rejected_amount = lit ''13,700'',
             cs_last_claim_date = Some (lit ''2025-01-04T09:30:00'')\<rparr>\<rparr> \<and>
   exact_hundredths 23 160 = 14375 / 10 \<and>
   spec_approval_rate 23 160 = 1438 / 100 \<and>
   \<lfloor>exact_hundredths 23 160 + 1 / 2\<rfloor> = 1438 \<and>
   PyFloat (binary64 (1437 / 100)) \<noteq> PyFloat (binary64 (spec_approval_rate 23 160))"
proof -
  have "PyFloat (binary64 (1437 / 100)) \<noteq> PyFloat (binary64 (spec_approval_rate 23 160))"
    unfolding tie_values(2) pynum.inject by (rule tie_values(4))
  with tie_lookup tie_values(2,3) tie_halfway(3) show ?thesis by (intro conjI)
qed

text \<open>
  Claim C3, amended.  In a successful lookup the approval rate is the integer 0 when
  there is no claim.  When there are claims, at most \<open>10\<^sup>1\<^sup>0\<close>, and the exact percentage,
  approved over total times 100, is not halfway between two values of two decimals, the
  rate is the float of that percentage rounded to two decimals; when it is halfway, the
  rate is the float of one of the two values.  A customer with a policy record and no
  claim gets a response, with total 0 and rate 0: no division is attempted.
\<close>

theorem approval_rate_rounded_off_ties:
  "(\<forall>resp. get_customer_info customer_name t = Inr resp \<longrightarrow>
      (cs_total_claims (cir_claims_summary resp) = 0 \<longrightarrow>
         cs_approval_rate (cir_claims_summary resp) = PyInt 0) \<and>
      (0 < cs_total_claims (cir_claims_summary resp) \<and>
       cs_total_claims (cir_claims_summary resp) \<le> 10 ^ 10 \<longrightarrow>
         (\<not> halfway (cs_approved_claims (cir_claims_summary resp))
                (cs_total_claims (cir_claims_summary resp)) \<longrightarrow>
            cs_approval_rate (cir_claims_summary resp) =
              PyFloat (binary64 (spec_approval_rate (cs_approved_claims (cir_claims_summary resp))
                                   (cs_total_claims (cir_claims_summary resp))))) \<and>
         (halfway (cs_approved_claims (cir_claims_summary resp))
              (cs_total_claims (cir_claims_summary resp)) \<longrightarrow>
            cs_approval_rate (cir_claims_summary resp) =
              PyFloat (binary64 (of_int \<lfloor>exact_hundredths
                 (cs_approved_claims (cir_claims_summary resp))
                 (cs_total_claims (cir_claims_summary resp))\<rfloor> / 100)) \<or>
            cs_approval_rate (cir_claims_summary resp) =
              PyFloat (binary64 (of_int (\<lfloor>exact_hundredths
                 (cs_approved_claims (cir_claims_summary resp))
                 (cs_total_claims (cir_claims_summary resp))\<rfloor> + 1) / 100))))) \<and>
   (first_customer_policy t customer_name \<noteq> None \<and> query_claims t customer_name = [] \<longrightarrow>
      (\<exists>resp. get_customer_info customer_name t = Inr resp \<and>
         cs_total_claims (cir_claims_summary resp) = 0 \<and>
         cs_approval_rate (cir_claims_summary resp) = PyInt 0))"
proof (intro conjI allI impI)
  fix resp
  assume run: "get_customer_info customer_name t = Inr resp"
  let ?claims = "query_claims t customer_name"
  let ?a = "length (filter (\<lambda>c. ic_status c = lit ''APPROVED'') ?claims)"
  from run obtain summary where
    s: "summarize ?claims = Some summary" and r: "cir_claims_summary resp = summary"
    by (auto simp: get_customer_info_def Let_def split: option.splits)
  from s have tot: "cs_total_claims summary = length ?claims"
    and app: "cs_approved_claims summary = ?a"
    and rate: "cs_approval_rate summary = approval_rate ?a (length ?claims)"
    by (auto simp: summarize_def Let_def simp del: format_commas.simps split: option.splits)
  have le: "?a \<le> length ?claims" by (rule filter_length_le)
  show "cs_approval_rate (cir_claims_summary resp) = PyInt 0"
    if "cs_total_claims (cir_claims_summary resp) = 0"
    using that by (simp add: r rate tot approval_rate_def)
  show "cs_approval_rate (cir_claims_summary resp) =
          PyFloat (binary64 (spec_approval_rate (cs_approved_claims (cir_claims_summary resp))
                               (cs_total_claims (cir_claims_summary resp))))"
    if "0 < cs_total_claims (cir_claims_summary resp) \<and>
        cs_total_claims (cir_claims_summary resp) \<le> 10 ^ 10"
      and "\<not> halfway (cs_approved_claims (cir_claims_summary resp))
                (cs_total_claims (cir_claims_summary resp))"
  proof -
    from that(1) have pos: "0 < length ?claims" and small: "length ?claims \<le> 10 ^ 10"
      by (simp_all add: r tot)
    from approval_rate_off_ties [OF pos le small] that(2) show ?thesis
      unfolding r rate tot app by blast
  qed
  show "cs_approval_rate (cir_claims_summary resp) =
          PyFloat (binary64 (of_int \<lfloor>exact_hundredths
             (cs_approved_claims (cir_claims_summary resp))
             (cs_total_claims (cir_claims_summary resp))\<rfloor> / 100)) \<or>
        cs_approval_rate (cir_claims_summary resp) =
          PyFloat (binary64 (of_int (\<lfloor>exact_hundredths
             (cs_approved_claims (cir_claims_summary resp))
             (cs_total_claims (cir_claims_summary resp))\<rfloor> + 1) / 100))"
    if "0 < cs_total_claims (cir_claims_summary resp) \<and>
        cs_total_claims (cir_claims_summary resp) \<le> 10 ^ 10"
      and "halfway (cs_approved_claims (cir_claims_summary resp))
              (cs_total_claims (cir_claims_summary resp))"
  proof -
    from that(1) have pos: "0 < length ?claims" and small: "length ?claims \<le> 10 ^ 10"
      by (simp_all add: r tot)
    from approval_rate_off_ties [OF pos le small] that(2) show ?thesis
      unfolding r rate tot app by blast
  qed
next
  assume h: "first_customer_policy t customer_name \<noteq> None \<and> query_claims t customer_name = []"
  then obtain row where row: "first_customer_policy t customer_name = Some row" by auto
  have "summarize [] =
      Some \<lparr>cs_total_claims = 0, cs_approved_claims = 0, cs_rejected_claims = 0,
            cs_under_review_claims = 0, cs_approval_rate = PyInt 0,
            cs_total_approved_amount = format_commas 0,
            cs_total_rejected_amount = format_commas 0,
            cs_last_claim_date = None\<rparr>"
    by (simp add: summarize_def last_claim_date_def approval_rate_def del: format_commas.simps)
  with h row show "\<exists>resp. get_customer_info customer_name t = Inr resp \<and>
         cs_total_claims (cir_claims_summary resp) = 0 \<and>
         cs_approval_rate (cir_claims_summary resp) = PyInt 0"
    by (simp add: get_customer_info_def Let_def del: format_commas.simps)
qed

theorem approval_rate_rounded_off_ties_witness:
  "(\<exists>resp. get_customer_info (lit ''Diya'') example_store = Inr resp \<and>
      cs_total_claims (cir_claims_summary resp) = 4 \<and>
      cs_approved_claims (cir_claims_summary resp) = 2 \<and>
      cs_approval_rate (cir_claims_summary resp) = PyFloat (binary64 50)) \<and>
   (\<exists>resp. get_customer_info (lit ''Diya'') tie_store = Inr resp \<and>
      cs_total_claims (cir_claims_summary resp) = 160 \<and>
      cs_approved_claims (cir_claims_summary resp) = 23 \<and>
      (cs_approval_rate (cir_claims_summary resp) = PyFloat (binary64 (1437 / 100)) \<or>
       cs_approval_rate (cir_claims_summary resp) = PyFloat (binary64 (1438 / 100)))) \<and>
   (\<exists>resp. get_customer_info (lit ''Diya'') (example_store\<lparr>insurance_claims := []\<rparr>) = Inr resp \<and>
      cs_total_claims (cir_claims_summary resp) = 0 \<and>
      cs_approval_rate (cir_claims_summary resp) = PyInt 0)"
proof -
  from example_lookup obtain resp where
    run: "get_customer_info (lit ''Diya'') example_store = Inr resp" and
    tot: "cs_total_claims (cir_claims_summary resp) = 4" and
    app: "cs_approved_claims (cir_claims_summary resp) = 2"
    by force
  from approval_rate_rounded_off_ties [of "lit ''Diya''" example_store] run
  have "0 < cs_total_claims (cir_claims_summary resp) \<and>
       cs_total_claims (cir_claims_summary resp) \<le> 10 ^ 10 \<longrightarrow>
         (\<not> halfway (cs_approved_claims (cir_claims_summary resp))
                (cs_total_claims (cir_claims_summary resp)) \<longrightarrow>
            cs_approval_rate (cir_claims_summary resp) =
              PyFloat (binary64 (spec_approval_rate (cs_approved_claims (cir_claims_summary resp))
                                   (cs_total_claims (cir_claims_summary resp)))))"
    by blast
  then have "cs_approval_rate (cir_claims_summary resp) = PyFloat (binary64 50)"
    unfolding tot app by (simp add: tie_halfway)
  with run tot app have first:
    "\<exists>resp. get_customer_info (lit ''Diya'') example_store = Inr resp \<and>
      cs_total_claims (cir_claims_summary resp) = 4 \<and>
      cs_approved_claims (cir_claims_summary resp) = 2 \<and>
      cs_approval_rate (cir_claims_summary resp) = PyFloat (binary64 50)"
    by blast
  from tie_lookup obtain resp' where
    run': "get_customer_info (lit ''Diya'') tie_store = Inr resp'" and
    tot': "cs_total_claims (cir_claims_summary resp') = 160" and
    app': "cs_approved_claims (cir_claims_summary resp') = 23"
    by force
  from approval_rate_rounded_off_ties [of "lit ''Diya''" tie_store] run'
  have "0 < cs_total_claims (cir_claims_summary resp') \<and>
       cs_total_claims (cir_claims_summary resp') \<le> 10 ^ 10 \<longrightarrow>
         (halfway (cs_approved_claims (cir_claims_summary resp'))
              (cs_total_claims (cir_claims_summary resp')) \<longrightarrow>
            cs_approval_rate (cir_claims_summary resp') =
              PyFloat (binary64 (of_int \<lfloor>exact_hundredths
                 (cs_approved_claims (cir_claims_summary resp'))
                 (cs_total_claims (cir_claims_summary resp'))\<rfloor> / 100)) \<or>
            cs_approval_rate (cir_claims_summary resp') =
              PyFloat (binary64 (of_int (\<lfloor>exact_hundredths
                 (cs_approved_claims (cir_claims_summary resp'))
                 (cs_total_claims (cir_claims_summary resp'))\<rfloor> + 1) / 100)))"
    by blast
  then have "cs_approval_rate (cir_claims_summary resp') = PyFloat (binary64 (1437 / 100)) \<or>
       cs_approval_rate (cir_claims_summary resp') = PyFloat (binary64 (1438 / 100))"
    unfolding tot' app' by (simp add: tie_halfway)
  with run' tot' app' have second:
    "\<exists>resp. get_customer_info (lit ''Diya'') tie_store = Inr resp \<and>
      cs_total_claims (cir_claims_summary resp) = 160 \<and>
      cs_approved_claims (cir_claims_summary resp) = 23 \<and>
      (cs_approval_rate (cir_claims_summary resp) = PyFloat (binary64 (1437 / 100)) \<or>
       cs_approval_rate (cir_claims_summary resp) = PyFloat (binary64 (1438 / 100)))"
    by blast
  let ?t = "example_store\<lparr>insurance_claims := []\<rparr>"
  have found: "first_customer_policy ?t (lit ''Diya'') \<noteq> None"
    by (simp add: first_customer_policy_def example_store_def example_policy_def)
  have none: "query_claims ?t (lit ''Diya'') = []"
    by (simp add: query_claims_def)
  from approval_rate_rounded_off_ties [of "lit ''Diya''" ?t] found none
  have third: "\<exists>resp. get_customer_info (lit ''Diya'') ?t = Inr resp \<and>
      cs_total_claims (cir_claims_summary resp) = 0 \<and>
      cs_approval_rate (cir_claims_summary resp) = PyInt 0"
    by blast
  from first second third show ?thesis by (intro conjI)
qed

end
